theory Spec2Isabelle
  imports Main
begin

section \<open>Data model\<close>

text \<open>
  The relational store is accessed through Prisma. Each table is a list of rows in
  insertion order; a row is a record with the columns the source reads and writes.
  Instants (\<open>Date\<close> values) are milliseconds since the epoch, as \<open>int\<close>.
\<close>

datatype UserRole = ADMIN | PRACTITIONER | CLIENT

text \<open>
  \<open>ClientView\<close> is the column set \<open>id, email, firstName, lastName, role, validated\<close>
  that \<open>register\<close> and \<open>validateClient\<close> return; \<open>AuthUser\<close> (types/auth.ts) adds
  \<open>phone\<close>; the stored row \<open>user\<close> adds the password hash and the creation time.
  The column \<open>id\<close> is written \<open>uid\<close>.
\<close>

record ClientView =
  uid :: string
  email :: string
  firstName :: string
  lastName :: string
  role :: UserRole
  validated :: bool

record AuthUser = ClientView +
  phone :: "string option"

record user = AuthUser +
  password :: string
  createdAt :: int

datatype json = JStr string | JBool bool | JNum int | JArr "json list" | JNull

record auditLog =
  log_userId :: string
  log_action :: string
  log_meta :: "(string \<times> json) list"

datatype AppointmentStatus = SCHEDULED | CONFIRMED | CANCELLED | COMPLETED

datatype ReminderType = APPOINTMENT_REMINDER | FOLLOW_UP | APPOINTMENT_CONFIRMATION | BIRTHDAY

text \<open>
  Of the other tables, the columns that the handlers modelled below read or write.
  The column \<open>id\<close> of each table carries the table's name as a prefix.
\<close>

record animal =
  animal_id :: string
  ownerId :: string
  animal_name :: string
  breed :: string

record appointment =
  appt_id :: string
  appt_clientId :: string
  appt_animalId :: string
  startTime :: int
  endTime :: int
  status :: AppointmentStatus
  appt_notes :: "string option"

record treatmentNote =
  note_id :: string
  note_animalId :: string

record reminder =
  rem_id :: string
  rem_message :: string
  messageFr :: string
  rem_type :: ReminderType
  remindAt :: int
  sent :: bool
  rem_appointmentId :: string
  rem_createdAt :: int

record db =
  users :: "user list"
  auditLogs :: "auditLog list"
  animals :: "animal list"
  appointments :: "appointment list"
  treatmentNotes :: "treatmentNote list"
  reminders :: "reminder list"

fun role_name :: "UserRole \<Rightarrow> string" where
  "role_name ADMIN = ''ADMIN''"
| "role_name PRACTITIONER = ''PRACTITIONER''"
| "role_name CLIENT = ''CLIENT''"

subsection \<open>Prisma queries on the users table\<close>

definition findUnique_email :: "db \<Rightarrow> string \<Rightarrow> user option" where
  "findUnique_email d e = find (\<lambda>u. email u = e) (users d)"

definition findUnique_id :: "db \<Rightarrow> string \<Rightarrow> user option" where
  "findUnique_id d i = find (\<lambda>u. uid u = i) (users d)"

text \<open>
  \<open>prisma.user.update({ where: { id }, data })\<close>: \<open>id\<close> is the primary key, so at most one
  row matches; every row carrying the key receives the update.
\<close>

definition update_user :: "string \<Rightarrow> (user \<Rightarrow> user) \<Rightarrow> db \<Rightarrow> db" where
  "update_user i f d = d\<lparr>users := map (\<lambda>u. if uid u = i then f u else u) (users d)\<rparr>"

definition auditLog_create :: "auditLog \<Rightarrow> db \<Rightarrow> db" where
  "auditLog_create e d = d\<lparr>auditLogs := auditLogs d @ [e]\<rparr>"

section \<open>String helpers of the JavaScript runtime\<close>

text \<open>
  \<open>String.prototype.trim\<close>, \<open>toLowerCase\<close> and the regular expression class \<open>\s\<close>, on
  ASCII: the whitespace characters are tab, line feed, vertical tab, form feed, carriage
  return and space, and the letters with a case are \<open>A\<close> to \<open>Z\<close>.
\<close>

definition is_space :: "char \<Rightarrow> bool" where
  "is_space c \<longleftrightarrow> (of_char c :: nat) \<in> {9, 10, 11, 12, 13, 32}"

definition trim :: "string \<Rightarrow> string" where
  "trim s = rev (dropWhile is_space (rev (dropWhile is_space s)))"

definition toLowerCase_char :: "char \<Rightarrow> char" where
  "toLowerCase_char c =
     (let n = (of_char c :: nat) in if 65 \<le> n \<and> n \<le> 90 then char_of (n + 32) else c)"

definition toLowerCase :: "string \<Rightarrow> string" where
  "toLowerCase s = map toLowerCase_char s"

text \<open>JavaScript truthiness of an optional string: absent and empty are falsy.\<close>

fun truthy :: "string option \<Rightarrow> bool" where
  "truthy None = False"
| "truthy (Some s) = (s \<noteq> [])"

section \<open>Authentication service (backend/src/services/authService.ts)\<close>

text \<open>
  The libraries \<open>bcryptjs\<close> and \<open>jsonwebtoken\<close> and the process environment are
  parameters. \<open>jwt_verify token secret\<close> is \<open>None\<close> when \<open>jwt.verify\<close> throws (bad
  signature, expired, malformed) and \<open>Some userId\<close> with the \<open>userId\<close> claim of the
  decoded payload otherwise. \<open>jwt_sign userId secret expiresIn\<close> is \<open>jwt.sign\<close> on the
  payload \<open>{ userId }\<close>.
\<close>

record libs =
  bcrypt_hash :: "string \<Rightarrow> nat \<Rightarrow> string"
  bcrypt_compare :: "string \<Rightarrow> string \<Rightarrow> bool"
  jwt_sign :: "string \<Rightarrow> string \<Rightarrow> string \<Rightarrow> string"
  jwt_verify :: "string \<Rightarrow> string \<Rightarrow> string option"
  JWT_SECRET :: string
  JWT_EXPIRES_IN :: "string option"
  JWT_REFRESH_SECRET :: string
  JWT_REFRESH_EXPIRES_IN :: "string option"

datatype auth_error =
    DuplicateEmail
  | InvalidCredentials
  | PendingValidation
  | ValidationRevoked
  | InvalidRefreshToken
  | ClientNotFound
  | NotAClient
  | AlreadyValidated

fun message :: "auth_error \<Rightarrow> string" where
  "message DuplicateEmail = ''An account with this email already exists''"
| "message InvalidCredentials = ''Invalid credentials''"
| "message PendingValidation =
     ''Your account is pending validation by an administrator. Please wait for approval before logging in.''"
| "message ValidationRevoked =
     ''Account validation has been revoked. Please contact an administrator.''"
| "message InvalidRefreshToken = ''Invalid refresh token''"
| "message ClientNotFound = ''Client not found''"
| "message NotAClient = ''Only client accounts can be validated''"
| "message AlreadyValidated = ''Client is already validated''"

record RegisterInput =
  ri_firstName :: string
  ri_lastName :: string
  ri_email :: string
  ri_phone :: "string option"
  ri_password :: string

record LoginInput =
  li_email :: string
  li_password :: string

record AuthResponse =
  ar_user :: AuthUser
  token :: string
  refreshToken_of :: string

record RegisterResult =
  rr_message :: string
  rr_user :: ClientView

text \<open>
  \<open>register\<close>. The key of the new row is generated by the store (\<open>newId\<close>), its
  \<open>createdAt\<close> is the current instant (\<open>now\<close>). Every service function returns its
  result (\<open>Inl\<close> the thrown error) together with the store as it is afterwards.
\<close>

definition register ::
  "libs \<Rightarrow> string \<Rightarrow> int \<Rightarrow> RegisterInput \<Rightarrow> db \<Rightarrow> (auth_error + RegisterResult) \<times> db" where
  "register L newId now data d =
     (case findUnique_email d (toLowerCase (ri_email data)) of
        Some existingUser \<Rightarrow> (Inl DuplicateEmail, d)
      | None \<Rightarrow>
          let hashedPassword = bcrypt_hash L (ri_password data) 12;
              u = \<lparr>uid = newId,
                   email = toLowerCase (ri_email data),
                   firstName = ri_firstName data,
                   lastName = ri_lastName data,
                   role = CLIENT,
                   validated = False,
                   phone = ri_phone data,
                   password = hashedPassword,
                   createdAt = now\<rparr>;
              d1 = d\<lparr>users := users d @ [u]\<rparr>;
              d2 = auditLog_create
                     \<lparr>log_userId = uid u, log_action = ''USER_REGISTERED'',
                      log_meta = [(''email'', JStr (email u)),
                              (''firstName'', JStr (firstName u)),
                              (''lastName'', JStr (lastName u)),
                              (''role'', JStr (role_name (role u))),
                              (''validated'', JBool (validated u))]\<rparr> d1
          in (Inr \<lparr>rr_message =
                     ''Registration successful! Your account is pending validation by an administrator.'',
                   rr_user = ClientView.truncate u\<rparr>, d2))"

text \<open>\<open>process.env.X || fallback\<close>: an unset and an empty variable give the fallback.\<close>

definition env_or :: "string option \<Rightarrow> string \<Rightarrow> string" where
  "env_or v fallback = (case v of None \<Rightarrow> fallback | Some e \<Rightarrow> if e = [] then fallback else e)"

definition generateTokens :: "libs \<Rightarrow> string \<Rightarrow> string \<times> string" where
  "generateTokens L userId =
     (jwt_sign L userId (JWT_SECRET L) (env_or (JWT_EXPIRES_IN L) ''15m''),
      jwt_sign L userId (JWT_REFRESH_SECRET L) (env_or (JWT_REFRESH_EXPIRES_IN L) ''7d''))"

definition login :: "libs \<Rightarrow> LoginInput \<Rightarrow> db \<Rightarrow> (auth_error + AuthResponse) \<times> db" where
  "login L data d =
     (case findUnique_email d (toLowerCase (li_email data)) of
        None \<Rightarrow> (Inl InvalidCredentials, d)
      | Some u \<Rightarrow>
          if \<not> bcrypt_compare L (li_password data) (password u) then (Inl InvalidCredentials, d)
          else if role u = CLIENT \<and> \<not> validated u then (Inl PendingValidation, d)
          else
            let tokens = generateTokens L (uid u);
                d1 = auditLog_create
                       \<lparr>log_userId = uid u, log_action = ''USER_LOGIN'',
                        log_meta = [(''email'', JStr (email u)),
                                (''role'', JStr (role_name (role u)))]\<rparr> d
            in (Inr \<lparr>ar_user = AuthUser.truncate u,
                     token = fst tokens, refreshToken_of = snd tokens\<rparr>, d1))"

text \<open>
  \<open>refreshToken\<close>: the body of the \<open>try\<close> block, then the \<open>catch\<close> that replaces
  whatever was thrown by the one error \<open>Invalid refresh token\<close>.
\<close>

datatype try_error = JwtVerifyError | Thrown auth_error

definition refreshToken_try :: "libs \<Rightarrow> string \<Rightarrow> db \<Rightarrow> try_error + AuthResponse" where
  "refreshToken_try L rt d =
     (case jwt_verify L rt (JWT_REFRESH_SECRET L) of
        None \<Rightarrow> Inl JwtVerifyError
      | Some decoded_userId \<Rightarrow>
          (case findUnique_id d decoded_userId of
             None \<Rightarrow> Inl (Thrown InvalidRefreshToken)
           | Some u \<Rightarrow>
               if role u = CLIENT \<and> \<not> validated u then Inl (Thrown ValidationRevoked)
               else
                 let tokens = generateTokens L (uid u)
                 in Inr \<lparr>ar_user = AuthUser.truncate u,
                         token = fst tokens, refreshToken_of = snd tokens\<rparr>))"

definition refreshToken :: "libs \<Rightarrow> string \<Rightarrow> db \<Rightarrow> (auth_error + AuthResponse) \<times> db" where
  "refreshToken L rt d =
     (case refreshToken_try L rt d of
        Inl error \<Rightarrow> (Inl InvalidRefreshToken, d)
      | Inr r \<Rightarrow> (Inr r, d))"

definition validateClient :: "string \<Rightarrow> string \<Rightarrow> db \<Rightarrow> (auth_error + ClientView) \<times> db" where
  "validateClient clientId adminUserId d =
     (case findUnique_id d clientId of
        None \<Rightarrow> (Inl ClientNotFound, d)
      | Some client \<Rightarrow>
          if role client \<noteq> CLIENT then (Inl NotAClient, d)
          else if validated client then (Inl AlreadyValidated, d)
          else
            let d1 = update_user clientId (\<lambda>u. u\<lparr>validated := True\<rparr>) d;
                updatedClient = ClientView.truncate (client\<lparr>validated := True\<rparr>);
                d2 = auditLog_create
                       \<lparr>log_userId = adminUserId, log_action = ''CLIENT_VALIDATED'',
                        log_meta = [(''validatedClientId'', JStr clientId),
                                (''validatedClientEmail'', JStr (email client)),
                                (''validatedClientName'',
                                   JStr (firstName client @ '' '' @ lastName client))]\<rparr> d1
            in (Inr updatedClient, d2))"

section \<open>Authentication routes (backend/src/routes/auth.ts)\<close>

text \<open>
  A handler answers with a status code and either a data payload or an error string;
  the human-readable \<open>message\<close> of a success body is left out. \<open>Rejected\<close> is an
  answer given before any handler runs (by a middleware or by the router), of which only
  the status code is known here. The request body of
  \<open>POST /auth/register\<close> is a JSON object: the five properties the handler
  destructures are strings when present, every other property the caller sends
  (a \<open>role\<close>, a \<open>validated\<close> flag, ...) is kept in \<open>b_other\<close>. A destructured
  property of another JSON type is outside this model.
\<close>

datatype 'a response = Success nat 'a | Failure nat string | Rejected nat

text \<open>
  \<open>req.user\<close>, the identity that the middleware \<open>authenticateToken\<close> attaches to a
  request before a handler runs.
\<close>

record req_user =
  ru_id :: string
  ru_role :: UserRole

record register_body =
  b_firstName :: "string option"
  b_lastName :: "string option"
  b_email :: "string option"
  b_phone :: "string option"
  b_password :: "string option"
  b_other :: "(string \<times> json) list"

text \<open>The regular expression \<open>/^[^\s@]+@[^\s@]+\.[^\s@]+$/\<close>.\<close>

definition plain_char :: "char \<Rightarrow> bool" where
  "plain_char c \<longleftrightarrow> \<not> is_space c \<and> c \<noteq> CHR ''@''"

definition emailRegex_test :: "string \<Rightarrow> bool" where
  "emailRegex_test s =
     (let local = takeWhile plain_char s; rest = dropWhile plain_char s
      in local \<noteq> [] \<and>
         (case rest of
            [] \<Rightarrow> False
          | c # domain \<Rightarrow>
              c = CHR ''@'' \<and> list_all plain_char domain \<and>
              CHR ''.'' \<in> set (butlast (tl domain))))"

definition POST_register ::
  "libs \<Rightarrow> string \<Rightarrow> int \<Rightarrow> register_body \<Rightarrow> db \<Rightarrow> RegisterResult response \<times> db" where
  "POST_register L newId now body d =
     (if \<not> truthy (b_firstName body) \<or> \<not> truthy (b_lastName body) \<or>
         \<not> truthy (b_email body) \<or> \<not> truthy (b_password body)
      then (Failure 400 ''First name, last name, email and password are required'', d)
      else
        (case (b_firstName body, b_lastName body, b_email body, b_password body) of
           (Some fn, Some ln, Some em, Some pw) \<Rightarrow>
             if length pw < 6
             then (Failure 400 ''Password must be at least 6 characters long'', d)
             else if \<not> emailRegex_test em
             then (Failure 400 ''Please provide a valid email address'', d)
             else
               (case register L newId now
                       \<lparr>ri_firstName = trim fn,
                        ri_lastName = trim ln,
                        ri_email = trim em,
                        ri_phone = (case b_phone body of
                                      None \<Rightarrow> None
                                    | Some ph \<Rightarrow> if trim ph = [] then None else Some (trim ph)),
                        ri_password = pw\<rparr> d of
                  (Inr result, d') \<Rightarrow> (Success 201 result, d')
                | (Inl error, d') \<Rightarrow> (Failure 400 (message error), d'))
         | _ \<Rightarrow> (Failure 400 ''First name, last name, email and password are required'', d)))"

section \<open>Animal routes (backend/src/routes/animals.ts)\<close>

text \<open>
  \<open>DELETE /animals/:id\<close>. The animal is looked up under the caller's ownership scope
  (\<open>findFirst\<close> with \<open>{ id }\<close> for staff, \<open>{ id, ownerId }\<close> for a client); then one
  appointment and one treatment note of the animal are looked for; the row is deleted
  when neither exists.
\<close>

definition isAdmin :: "req_user \<Rightarrow> bool" where
  "isAdmin c \<longleftrightarrow> ru_role c = ADMIN \<or> ru_role c = PRACTITIONER"

definition find_animal_scoped :: "req_user \<Rightarrow> string \<Rightarrow> db \<Rightarrow> animal option" where
  "find_animal_scoped c i d =
     find (\<lambda>a. if isAdmin c then animal_id a = i else animal_id a = i \<and> ownerId a = ru_id c)
       (animals d)"

definition DELETE_animal :: "req_user \<Rightarrow> string \<Rightarrow> db \<Rightarrow> unit response \<times> db" where
  "DELETE_animal c i d =
     (case find_animal_scoped c i d of
        None \<Rightarrow>
          (Failure 404 ''Animal not found or you do not have permission to delete it'', d)
      | Some existingAnimal \<Rightarrow>
          let hasAppointments = find (\<lambda>p. appt_animalId p = i) (appointments d);
              hasTreatmentNotes = find (\<lambda>n. note_animalId n = i) (treatmentNotes d)
          in if hasAppointments \<noteq> None \<or> hasTreatmentNotes \<noteq> None
             then (Failure 400
                     ''Cannot delete animal with existing appointments or treatment notes. Please contact an administrator.'',
                   d)
             else (Success 200 (), d\<lparr>animals := filter (\<lambda>a. animal_id a \<noteq> i) (animals d)\<rparr>))"

text \<open>The answer that the specification calls \<open>DependencyBlocked\<close>.\<close>

definition DependencyBlocked :: "unit response" where
  "DependencyBlocked =
     Failure 400
       ''Cannot delete animal with existing appointments or treatment notes. Please contact an administrator.''"

section \<open>Reminder routes (backend/src/routes/reminders.ts)\<close>

text \<open>
  The record that the handlers answer with, and that the process-wide map
  \<open>manualReminders\<close> stores for reminders without an appointment. The state of these
  routes is the store together with that map.
\<close>

record ReminderResponse =
  r_id :: string
  r_message :: string
  r_type :: string
  dueDate :: string
  completed :: bool
  priority :: string
  r_appointmentId :: "string option"
  r_createdAt :: string

type_synonym manualReminders = "string \<rightharpoonup> ReminderResponse"

text \<open>
  What a request reads from the JavaScript runtime and from the store's key and clock
  generators: the clock (\<open>Date.now()\<close>, and its later reading by \<open>new Date()\<close> in the
  same request), \<open>Date.prototype.toISOString\<close>, the parser behind \<open>new Date(string)\<close>
  (\<open>None\<close> for an invalid date), the string \<open>Math.random().toString(36).substr(2, 9)\<close>,
  the key and the \<open>createdAt\<close> default that the store gives a new row. Numbers are
  integers: a fractional \<open>minutes\<close> is outside this model.
\<close>

record runtime =
  Date_now :: int
  Date_now_later :: int
  toISOString :: "int \<Rightarrow> string"
  Date_parse :: "string \<Rightarrow> int option"
  random_suffix :: string
  generated_id :: string
  db_now :: int

text \<open>A \<open>Date\<close> holds an instant of at most 8.64e15 milliseconds; otherwise it is invalid.\<close>

definition valid_date :: "int \<Rightarrow> bool" where
  "valid_date t \<longleftrightarrow> \<bar>t\<bar> \<le> 8640000000000000"

fun digits :: "nat \<Rightarrow> string" where
  "digits n = (if n < 10 then [''0123456789'' ! n]
               else digits (n div 10) @ [''0123456789'' ! (n mod 10)])"

declare digits.simps [simp del]

definition Number_toString :: "int \<Rightarrow> string" where
  "Number_toString i = (if i < 0 then CHR ''-'' # digits (nat (- i)) else digits (nat i))"

definition startsWith :: "string \<Rightarrow> string \<Rightarrow> bool" where
  "startsWith s p \<longleftrightarrow> take (length p) s = p"

record reminder_body =
  rb_message :: "string option"
  rb_type :: "string option"
  rb_dueDate :: "string option"
  rb_priority :: "string option"
  rb_appointmentId :: "string option"

record validatedData =
  v_message :: string
  v_type :: string
  v_dueDate :: string
  v_priority :: string
  v_appointmentId :: "string option"

text \<open>\<open>createReminderSchema.parse\<close>; \<open>None\<close> stands for the thrown \<open>ZodError\<close>.\<close>

definition createReminderSchema_parse :: "reminder_body \<Rightarrow> validatedData option" where
  "createReminderSchema_parse b =
     (case (rb_message b, rb_dueDate b) of
        (Some m, Some dd) \<Rightarrow>
          if length m < 1 then None
          else if \<not> (case rb_priority b of
                        None \<Rightarrow> True
                      | Some p \<Rightarrow> p \<in> set [''HIGH'', ''MEDIUM'', ''LOW''])
          then None
          else Some \<lparr>v_message = m,
                     v_type = (case rb_type b of None \<Rightarrow> ''MANUAL'' | Some t \<Rightarrow> t),
                     v_dueDate = dd,
                     v_priority = (case rb_priority b of None \<Rightarrow> ''MEDIUM'' | Some p \<Rightarrow> p),
                     v_appointmentId = rb_appointmentId b\<rparr>
      | _ \<Rightarrow> None)"

definition mapStringToReminderType :: "string \<Rightarrow> ReminderType" where
  "mapStringToReminderType typeString =
     (if typeString = ''APPOINTMENT_REMINDER'' then APPOINTMENT_REMINDER
      else if typeString = ''FOLLOW_UP'' then FOLLOW_UP
      else if typeString = ''APPOINTMENT_CONFIRMATION'' then APPOINTMENT_CONFIRMATION
      else if typeString = ''BIRTHDAY'' then BIRTHDAY
      else FOLLOW_UP)"

fun ReminderType_name :: "ReminderType \<Rightarrow> string" where
  "ReminderType_name APPOINTMENT_REMINDER = ''APPOINTMENT_REMINDER''"
| "ReminderType_name FOLLOW_UP = ''FOLLOW_UP''"
| "ReminderType_name APPOINTMENT_CONFIRMATION = ''APPOINTMENT_CONFIRMATION''"
| "ReminderType_name BIRTHDAY = ''BIRTHDAY''"

text \<open>
  \<open>POST /reminders\<close>. With a truthy \<open>appointmentId\<close> the reminder is a row of the store
  (the store refuses an invalid date, which the inner \<open>catch\<close> turns into status 500);
  otherwise it is an entry of \<open>manualReminders\<close> under a fresh \<open>manual-\<close> id.
\<close>

definition POST_reminders ::
  "runtime \<Rightarrow> reminder_body \<Rightarrow> db \<times> manualReminders \<Rightarrow>
     ReminderResponse response \<times> (db \<times> manualReminders)" where
  "POST_reminders R body st =
     (case st of (d, manual) \<Rightarrow>
      (case createReminderSchema_parse body of
         None \<Rightarrow> (Failure 400 ''Validation error'', st)
       | Some validatedData \<Rightarrow>
           if truthy (v_appointmentId validatedData) then
             (case v_appointmentId validatedData of
                None \<Rightarrow> (Failure 400 ''Validation error'', st)
              | Some appointmentId \<Rightarrow>
                 (case find (\<lambda>p. appt_id p = appointmentId) (appointments d) of
                    None \<Rightarrow> (Failure 404 ''Appointment not found'', st)
                  | Some appointment \<Rightarrow>
                      let reminderType = mapStringToReminderType (v_type validatedData)
                      in (case Date_parse R (v_dueDate validatedData) of
                            None \<Rightarrow> (Failure 500 ''Failed to create reminder in database'', st)
                          | Some t \<Rightarrow>
                              let r = \<lparr>rem_id = generated_id R,
                                       rem_message = v_message validatedData,
                                       messageFr = v_message validatedData,
                                       rem_type = reminderType,
                                       remindAt = t,
                                       sent = False,
                                       rem_appointmentId = appointmentId,
                                       rem_createdAt = db_now R\<rparr>;
                                  resp = \<lparr>r_id = rem_id r,
                                          r_message = rem_message r,
                                          r_type = v_type validatedData,
                                          dueDate = toISOString R (remindAt r),
                                          completed = sent r,
                                          priority = v_priority validatedData,
                                          r_appointmentId = Some (rem_appointmentId r),
                                          r_createdAt = toISOString R (rem_createdAt r)\<rparr>
                              in (Success 201 resp,
                                  (d\<lparr>reminders := reminders d @ [r]\<rparr>, manual)))))
           else
             let i = ''manual-'' @ Number_toString (Date_now R) @ ''-'' @ random_suffix R;
                 manualReminder = \<lparr>r_id = i,
                                   r_message = v_message validatedData,
                                   r_type = v_type validatedData,
                                   dueDate = v_dueDate validatedData,
                                   completed = False,
                                   priority = v_priority validatedData,
                                   r_appointmentId = None,
                                   r_createdAt = toISOString R (Date_now_later R)\<rparr>
             in (Success 201 manualReminder, (d, manual(i \<mapsto> manualReminder)))))"

text \<open>
  \<open>PUT /reminders/:id/snooze\<close>. \<open>minutes\<close> is \<open>None\<close> when the body has no such
  property. On the manual path \<open>toISOString\<close> throws for an invalid date and the outer
  \<open>catch\<close> answers 400; on the store path the update throws for an invalid date and
  for an unknown id, and the inner \<open>catch\<close> answers 404.
\<close>

definition PUT_reminders_snooze ::
  "runtime \<Rightarrow> string \<Rightarrow> int option \<Rightarrow> db \<times> manualReminders \<Rightarrow>
     ReminderResponse response \<times> (db \<times> manualReminders)" where
  "PUT_reminders_snooze R i minutes_opt st =
     (case st of (d, manual) \<Rightarrow>
      (case minutes_opt of
         None \<Rightarrow> (Failure 400 ''Invalid snooze duration'', st)
       | Some minutes \<Rightarrow>
           if minutes = 0 \<or> minutes \<le> 0 then (Failure 400 ''Invalid snooze duration'', st)
           else if startsWith i ''manual-'' then
             (case manual i of
                None \<Rightarrow> (Failure 404 ''Manual reminder not found'', st)
              | Some existingReminder \<Rightarrow>
                  let newDueDate = Date_now R + minutes * 60 * 1000
                  in if \<not> valid_date newDueDate
                     then (Failure 400 ''Failed to snooze reminder'', st)
                     else
                       let snoozedReminder =
                             existingReminder\<lparr>dueDate := toISOString R newDueDate\<rparr>
                       in (Success 200 snoozedReminder, (d, manual(i \<mapsto> snoozedReminder))))
           else
             let newRemindAt = Date_now R + minutes * 60 * 1000
             in if \<not> valid_date newRemindAt then (Failure 404 ''Reminder not found'', st)
                else
                  (case find (\<lambda>r. rem_id r = i) (reminders d) of
                     None \<Rightarrow> (Failure 404 ''Reminder not found'', st)
                   | Some existing \<Rightarrow>
                       let r = existing\<lparr>remindAt := newRemindAt\<rparr>;
                           d1 = d\<lparr>reminders :=
                                   map (\<lambda>x. if rem_id x = i then x\<lparr>remindAt := newRemindAt\<rparr> else x)
                                     (reminders d)\<rparr>;
                           resp = \<lparr>r_id = rem_id r,
                                   r_message = rem_message r,
                                   r_type = ReminderType_name (rem_type r),
                                   dueDate = toISOString R (remindAt r),
                                   completed = sent r,
                                   priority = ''MEDIUM'',
                                   r_appointmentId = Some (rem_appointmentId r),
                                   r_createdAt = toISOString R (rem_createdAt r)\<rparr>
                       in (Success 200 resp, (d1, manual)))))"

section \<open>User routes (backend/src/routes/users.ts)\<close>

text \<open>
  The body of a \<open>PUT\<close> request on this router: the four profile properties
  (\<open>phone\<close> may be absent, \<open>null\<close> or a string) and \<open>clientIds\<close>, which is \<open>None\<close>
  when the property is absent or not an array.
\<close>

record users_body =
  ub_firstName :: "string option"
  ub_lastName :: "string option"
  ub_phone :: "string option option"
  ub_email :: "string option"
  ub_clientIds :: "string list option"

record ProfileView =
  pv_id :: string
  pv_email :: string
  pv_firstName :: string
  pv_lastName :: string
  pv_phone :: "string option"
  pv_validated :: bool
  pv_createdAt :: int

text \<open>\<open>PUT /users/:id/validate\<close>, the handler.\<close>

definition PUT_users_validate :: "req_user \<Rightarrow> string \<Rightarrow> db \<Rightarrow> ClientView response \<times> db" where
  "PUT_users_validate c i d =
     (case findUnique_id d i of
        None \<Rightarrow> (Failure 404 ''User not found'', d)
      | Some u \<Rightarrow>
          if role u \<noteq> CLIENT then (Failure 400 ''Only client accounts can be validated'', d)
          else if validated u then (Failure 400 ''Client account is already validated'', d)
          else
            let d1 = update_user i (\<lambda>u. u\<lparr>validated := True\<rparr>) d;
                updatedUser = ClientView.truncate (u\<lparr>validated := True\<rparr>);
                d2 = auditLog_create
                       \<lparr>log_userId = ru_id c, log_action = ''VALIDATE_CLIENT'',
                        log_meta = [(''validatedClientId'', JStr i),
                                    (''validatedClientEmail'', JStr (email u)),
                                    (''validatedClientName'',
                                       JStr (firstName u @ '' '' @ lastName u))]\<rparr> d1
            in (Success 200 updatedUser, d2))"

text \<open>
  \<open>PUT /users/:id\<close>, the handler. The update object holds \<open>firstName\<close>, \<open>lastName\<close>
  and \<open>email\<close> when they are truthy and \<open>phone\<close> when it is not \<open>undefined\<close>.
\<close>

definition profile_data :: "users_body \<Rightarrow> user \<Rightarrow> user" where
  "profile_data body u =
     u\<lparr>firstName := (case ub_firstName body of
                        Some f \<Rightarrow> if f \<noteq> [] then f else firstName u
                      | None \<Rightarrow> firstName u),
       lastName := (case ub_lastName body of
                       Some l \<Rightarrow> if l \<noteq> [] then l else lastName u
                     | None \<Rightarrow> lastName u),
       phone := (case ub_phone body of Some ph \<Rightarrow> ph | None \<Rightarrow> phone u),
       email := (case ub_email body of
                    Some e \<Rightarrow> if e \<noteq> [] then e else email u
                  | None \<Rightarrow> email u)\<rparr>"

definition PUT_users_update :: "string \<Rightarrow> users_body \<Rightarrow> db \<Rightarrow> ProfileView response \<times> db" where
  "PUT_users_update i body d =
     (case findUnique_id d i of
        None \<Rightarrow> (Failure 404 ''User not found'', d)
      | Some u \<Rightarrow>
          if role u \<noteq> CLIENT then (Failure 400 ''Only client accounts can be updated'', d)
          else if truthy (ub_email body) \<and>
                  find (\<lambda>x. Some (email x) = ub_email body \<and> uid x \<noteq> i) (users d) \<noteq> None
          then (Failure 400 ''Email is already taken'', d)
          else
            let d1 = update_user i (profile_data body) d;
                updatedUser = profile_data body u
            in (Success 200
                  \<lparr>pv_id = uid updatedUser, pv_email = email updatedUser,
                   pv_firstName = firstName updatedUser, pv_lastName = lastName updatedUser,
                   pv_phone = phone updatedUser, pv_validated = validated updatedUser,
                   pv_createdAt = createdAt updatedUser\<rparr>, d1))"

text \<open>
  \<open>PUT /users/bulk/validate\<close>, the handler: one \<open>updateMany\<close> over the rows whose id is
  in the list, whose role is CLIENT and which are not validated; the answer carries
  the number of rows updated.
\<close>

definition bulk_target :: "string list \<Rightarrow> user \<Rightarrow> bool" where
  "bulk_target clientIds u \<longleftrightarrow> uid u \<in> set clientIds \<and> role u = CLIENT \<and> validated u = False"

definition PUT_users_bulk_validate :: "req_user \<Rightarrow> users_body \<Rightarrow> db \<Rightarrow> nat response \<times> db" where
  "PUT_users_bulk_validate c body d =
     (case ub_clientIds body of
        None \<Rightarrow> (Failure 400 ''Client IDs array is required'', d)
      | Some clientIds \<Rightarrow>
          if length clientIds = 0 then (Failure 400 ''Client IDs array is required'', d)
          else
            let count = length (filter (bulk_target clientIds) (users d));
                d1 = d\<lparr>users := map (\<lambda>u. if bulk_target clientIds u
                                          then u\<lparr>validated := True\<rparr> else u) (users d)\<rparr>;
                d2 = auditLog_create
                       \<lparr>log_userId = ru_id c, log_action = ''BULK_VALIDATE_CLIENTS'',
                        log_meta = [(''validatedClientIds'', JArr (map JStr clientIds)),
                                    (''validatedCount'', JNum (int count))]\<rparr> d1
            in (Success 200 count, d2))"

subsection \<open>The router\<close>

text \<open>
  An Express router tries its routes in the order of their declaration and runs the first
  one whose method and path pattern match the request; a handler that answers ends the
  request. A path is its list of segments; a pattern segment is a literal (compared
  without regard to case, the router's default) or a parameter such as \<open>:id\<close>, which
  matches any non-empty segment. The \<open>PUT\<close> routes of this router, in the order of the
  source, with the roles given to \<open>requireRole\<close>: \<open>/:id/validate\<close>, \<open>/:id\<close>,
  \<open>/bulk/validate\<close>.
\<close>

datatype segment = Param | Lit string

fun match_path :: "segment list \<Rightarrow> string list \<Rightarrow> string list option" where
  "match_path [] [] = Some []"
| "match_path (Lit l # ps) (x # xs) =
     (if toLowerCase x = toLowerCase l then match_path ps xs else None)"
| "match_path (Param # ps) (x # xs) =
     (if x = [] then None else map_option ((#) x) (match_path ps xs))"
| "match_path _ _ = None"

datatype users_handler = H_validate | H_update | H_bulk_validate

definition users_PUT_routes :: "(segment list \<times> UserRole list \<times> users_handler) list" where
  "users_PUT_routes =
     [([Param, Lit ''validate''], [ADMIN, PRACTITIONER], H_validate),
      ([Param], [ADMIN, PRACTITIONER], H_update),
      ([Lit ''bulk'', Lit ''validate''], [ADMIN], H_bulk_validate)]"

definition dispatch ::
  "(segment list \<times> 'r \<times> 'h) list \<Rightarrow> string list \<Rightarrow> (string list \<times> 'r \<times> 'h) option" where
  "dispatch routes path =
     (case find (\<lambda>(pat, allowed, h). match_path pat path \<noteq> None) routes of
        None \<Rightarrow> None
      | Some (pat, allowed, h) \<Rightarrow>
          (case match_path pat path of
             None \<Rightarrow> None
           | Some params \<Rightarrow> Some (params, allowed, h)))"

text \<open>
  Modelled from the spec: \<open>requireRole\<close> of middleware/auth, which is not among the
  sources. It checks the resolved role against the static allow-list of the route and
  fails with \<open>Forbidden\<close> (status 403) if the role is not listed.
\<close>

definition requireRole :: "UserRole list \<Rightarrow> req_user \<Rightarrow> bool" where
  "requireRole allowed c \<longleftrightarrow> ru_role c \<in> set allowed"

datatype users_data = ValidatedClient ClientView | UpdatedProfile ProfileView | ValidatedCount nat

text \<open>
  A \<open>PUT\<close> request on the users router by an authenticated caller: the first matching
  route, its role check, then its handler. No match is Express's own 404.
\<close>

definition users_PUT ::
  "req_user \<Rightarrow> string list \<Rightarrow> users_body \<Rightarrow> db \<Rightarrow> users_data response \<times> db" where
  "users_PUT c path body d =
     (case dispatch users_PUT_routes path of
        None \<Rightarrow> (Rejected 404, d)
      | Some (params, allowed, h) \<Rightarrow>
          if \<not> requireRole allowed c then (Rejected 403, d)
          else
            (case (h, params) of
               (H_validate, [i]) \<Rightarrow>
                 apfst (map_response ValidatedClient) (PUT_users_validate c i d)
             | (H_update, [i]) \<Rightarrow>
                 apfst (map_response UpdatedProfile) (PUT_users_update i body d)
             | (H_bulk_validate, []) \<Rightarrow>
                 apfst (map_response ValidatedCount) (PUT_users_bulk_validate c body d)
             | _ \<Rightarrow> (Rejected 404, d)))"

text \<open>
  The operations that change a user row after registration, as a datatype: the three
  handlers above, \<open>validateClient\<close> of the authentication service (behind
  \<open>PUT /auth/validate-client/:clientId\<close>), and a whole \<open>PUT\<close> request on the users
  router. A failed operation leaves the store as it was.
\<close>

datatype user_op =
    ProfileUpdate string users_body
  | BulkValidate req_user users_body
  | SingleValidate req_user string
  | AuthValidate string string
  | PutUsers req_user "string list" users_body

fun apply_user_op :: "user_op \<Rightarrow> db \<Rightarrow> db" where
  "apply_user_op (ProfileUpdate i body) d = snd (PUT_users_update i body d)"
| "apply_user_op (BulkValidate c body) d = snd (PUT_users_bulk_validate c body d)"
| "apply_user_op (SingleValidate c i) d = snd (PUT_users_validate c i d)"
| "apply_user_op (AuthValidate i a) d = snd (validateClient i a d)"
| "apply_user_op (PutUsers c path body) d = snd (users_PUT c path body d)"

definition run_user_ops :: "user_op list \<Rightarrow> db \<Rightarrow> db" where
  "run_user_ops ops d = fold apply_user_op ops d"

definition is_validated :: "db \<Rightarrow> string \<Rightarrow> bool" where
  "is_validated d i = (case findUnique_id d i of Some u \<Rightarrow> validated u | None \<Rightarrow> False)"

section \<open>Appointment status lifecycle\<close>

text \<open>
  Modelled from the spec: the two ways a transition operation of the appointment routes
  (which are not among the sources) fails, an id that does not resolve (\<open>NotFound\<close>)
  and a status from which the operation is not valid.
\<close>

datatype appointment_error = NotFound | InvalidTransition

text \<open>
  Modelled from the spec: the lookup of an appointment by its id, for the appointment
  routes, which are not among the sources.
\<close>

definition find_appointment :: "string \<Rightarrow> db \<Rightarrow> appointment option" where
  "find_appointment i d = find (\<lambda>p. appt_id p = i) (appointments d)"

text \<open>
  Modelled from the spec: the single-row update of an appointment by its id ("every
  workflow is a single-row update"), for the appointment routes, which are not among the
  sources.
\<close>

definition update_appointment :: "string \<Rightarrow> (appointment \<Rightarrow> appointment) \<Rightarrow> db \<Rightarrow> db" where
  "update_appointment i f d =
     d\<lparr>appointments := map (\<lambda>p. if appt_id p = i then f p else p) (appointments d)\<rparr>"

text \<open>
  Modelled from the spec: the state graph of the appointment status, "SCHEDULED to
  CONFIRMED or CANCELLED; CONFIRMED to CANCELLED or COMPLETED; CANCELLED and COMPLETED
  are terminal". The appointment routes are not among the sources.
\<close>

fun status_transition :: "AppointmentStatus \<Rightarrow> AppointmentStatus \<Rightarrow> bool" where
  "status_transition SCHEDULED s = (s = CONFIRMED \<or> s = CANCELLED)"
| "status_transition CONFIRMED s = (s = CANCELLED \<or> s = COMPLETED)"
| "status_transition CANCELLED s = False"
| "status_transition COMPLETED s = False"

text \<open>
  Modelled from the spec: \<open>confirm(id)\<close> of the appointment routes, which are not among
  the sources (only their callers in the dashboard are): "only valid from SCHEDULED";
  an id that does not resolve fails with \<open>NotFound\<close>. The role check
  (admin/practitioner only) is the route's middleware and runs before.
\<close>

definition confirm :: "string \<Rightarrow> db \<Rightarrow> (appointment_error + appointment) \<times> db" where
  "confirm i d =
     (case find_appointment i d of
        None \<Rightarrow> (Inl NotFound, d)
      | Some p \<Rightarrow>
          if status p = SCHEDULED
          then (Inr (p\<lparr>status := CONFIRMED\<rparr>),
                update_appointment i (\<lambda>p. p\<lparr>status := CONFIRMED\<rparr>) d)
          else (Inl InvalidTransition, d))"

text \<open>
  Modelled from the spec: \<open>refuse(id, reason?)\<close> of the appointment routes, which are
  not among the sources: "only valid from SCHEDULED; records an optional free-text reason";
  "the data model reuses CANCELLED". The spec does not say where the reason is recorded;
  here it replaces the notes of the appointment when it is given.
\<close>

definition refuse ::
  "string \<Rightarrow> string option \<Rightarrow> db \<Rightarrow> (appointment_error + appointment) \<times> db" where
  "refuse i reason d =
     (case find_appointment i d of
        None \<Rightarrow> (Inl NotFound, d)
      | Some p \<Rightarrow>
          if status p = SCHEDULED
          then
            let f = (\<lambda>p. p\<lparr>status := CANCELLED,
                            appt_notes := (case reason of None \<Rightarrow> appt_notes p
                                           | Some r \<Rightarrow> Some r)\<rparr>)
            in (Inr (f p), update_appointment i f d)
          else (Inl InvalidTransition, d))"

text \<open>
  Modelled from the spec: \<open>cancel(id)\<close> of the appointment routes, which are not among
  the sources: "valid from any non-terminal state; both clients (their own appointments)
  and staff may call it". An appointment outside the caller's ownership scope does not
  resolve (\<open>NotFound\<close>).
\<close>

definition cancel :: "req_user \<Rightarrow> string \<Rightarrow> db \<Rightarrow> (appointment_error + appointment) \<times> db" where
  "cancel c i d =
     (case find_appointment i d of
        None \<Rightarrow> (Inl NotFound, d)
      | Some p \<Rightarrow>
          if \<not> (isAdmin c \<or> appt_clientId p = ru_id c) then (Inl NotFound, d)
          else if status p = SCHEDULED \<or> status p = CONFIRMED
          then (Inr (p\<lparr>status := CANCELLED\<rparr>),
                update_appointment i (\<lambda>p. p\<lparr>status := CANCELLED\<rparr>) d)
          else (Inl InvalidTransition, d))"

text \<open>
  Modelled from the spec: the three transition operations of section 4.3 (the appointment
  routes are not among the sources) as the constructors of one datatype.
\<close>

datatype lifecycle_op = Confirm | Refuse "string option" | Cancel req_user

text \<open>
  Modelled from the spec: one transition operation of section 4.3 applied to the
  appointment of a given id.
\<close>

fun apply_lifecycle_op ::
  "lifecycle_op \<Rightarrow> string \<Rightarrow> db \<Rightarrow> (appointment_error + appointment) \<times> db" where
  "apply_lifecycle_op Confirm i d = confirm i d"
| "apply_lifecycle_op (Refuse reason) i d = refuse i reason d"
| "apply_lifecycle_op (Cancel c) i d = cancel c i d"

text \<open>
  Modelled from the spec: a run of transition operations of section 4.3 on one
  appointment; an operation that fails changes nothing, and the run goes on.
\<close>

definition run_lifecycle :: "lifecycle_op list \<Rightarrow> string \<Rightarrow> db \<Rightarrow> db" where
  "run_lifecycle ops i d = fold (\<lambda>op d. snd (apply_lifecycle_op op i d)) ops d"

section \<open>Example data\<close>

text \<open>
  A toy instance of the libraries: the hash of \<open>p\<close> is \<open>h:p\<close>, a token is the secret,
  a colon and the user id.
\<close>

definition ex_libs :: libs where
  "ex_libs =
     \<lparr>bcrypt_hash = (\<lambda>p n. ''h:'' @ p),
      bcrypt_compare = (\<lambda>p h. h = ''h:'' @ p),
      jwt_sign = (\<lambda>u s e. s @ '':'' @ u),
      jwt_verify = (\<lambda>t s. if take (length s + 1) t = s @ '':''
                            then Some (drop (length s + 1) t) else None),
      JWT_SECRET = ''s1'',
      JWT_EXPIRES_IN = None,
      JWT_REFRESH_SECRET = ''s2'',
      JWT_REFRESH_EXPIRES_IN = Some ''30d''\<rparr>"

definition ex_client :: user where
  "ex_client =
     \<lparr>uid = ''u1'', email = ''a@b.c'', firstName = ''Ann'', lastName = ''Lee'',
      role = CLIENT, validated = False, phone = None,
      password = ''h:secret'', createdAt = 1\<rparr>"

definition ex_admin :: user where
  "ex_admin =
     \<lparr>uid = ''u0'', email = ''root@b.c'', firstName = ''Rob'', lastName = ''Roy'',
      role = ADMIN, validated = False, phone = None,
      password = ''h:admin1'', createdAt = 0\<rparr>"

definition ex_animals :: "animal list" where
  "ex_animals =
     [\<lparr>animal_id = ''a1'', ownerId = ''u1'', animal_name = ''Rex'', breed = ''Collie''\<rparr>,
      \<lparr>animal_id = ''a2'', ownerId = ''u1'', animal_name = ''Tom'', breed = ''Siamese''\<rparr>]"

definition ex_appointment :: appointment where
  "ex_appointment =
     \<lparr>appt_id = ''p1'', appt_clientId = ''u1'', appt_animalId = ''a1'', startTime = 1000, endTime = 2000,
      status = SCHEDULED, appt_notes = None\<rparr>"

definition ex_db :: db where
  "ex_db =
     \<lparr>users = [ex_admin, ex_client], auditLogs = [], animals = ex_animals,
      appointments = [ex_appointment], treatmentNotes = [], reminders = []\<rparr>"

definition ex_caller_client :: req_user where
  "ex_caller_client = \<lparr>ru_id = ''u1'', ru_role = CLIENT\<rparr>"

definition ex_caller_admin :: req_user where
  "ex_caller_admin = \<lparr>ru_id = ''u0'', ru_role = ADMIN\<rparr>"

definition ex_login :: LoginInput where
  "ex_login = \<lparr>li_email = ''A@b.c'', li_password = ''secret''\<rparr>"

definition ex_register_body :: register_body where
  "ex_register_body =
     \<lparr>b_firstName = Some ''Eve'', b_lastName = Some ''Fox'', b_email = Some ''Eve@x.io'',
      b_phone = None, b_password = Some ''hunter22'',
      b_other = [(''role'', JStr ''ADMIN''), (''validated'', JBool True)]\<rparr>"

definition ex_runtime :: runtime where
  "ex_runtime =
     \<lparr>Date_now = 5000, Date_now_later = 5001,
      toISOString = (\<lambda>t. ''T'' @ Number_toString t),
      Date_parse = (\<lambda>s. if s = ''soon'' then Some 9000 else None),
      random_suffix = ''k3x9q0zzp'', generated_id = ''r7'', db_now = 5002\<rparr>"

definition ex_manual_reminder :: ReminderResponse where
  "ex_manual_reminder =
     \<lparr>r_id = ''manual-1-abc'', r_message = ''Call the vet'', r_type = ''CHECKUP'',
      dueDate = ''T100'', completed = False, priority = ''HIGH'',
      r_appointmentId = None, r_createdAt = ''T1''\<rparr>"

definition ex_reminder :: reminder where
  "ex_reminder =
     \<lparr>rem_id = ''r1'', rem_message = ''Confirm Rex'', messageFr = ''Confirmer Rex'',
      rem_type = APPOINTMENT_CONFIRMATION, remindAt = 100, sent = True,
      rem_appointmentId = ''p1'', rem_createdAt = 1\<rparr>"

definition ex_state :: "db \<times> manualReminders" where
  "ex_state =
     (ex_db\<lparr>reminders := [ex_reminder]\<rparr>, [''manual-1-abc'' \<mapsto> ex_manual_reminder])"

definition ex_reminder_body :: reminder_body where
  "ex_reminder_body =
     \<lparr>rb_message = Some ''Give pills'', rb_type = Some ''MEDICATION'',
      rb_dueDate = Some ''soon'', rb_priority = None, rb_appointmentId = Some ''p1''\<rparr>"

definition ex_bulk_body :: users_body where
  "ex_bulk_body =
     \<lparr>ub_firstName = None, ub_lastName = None, ub_phone = None, ub_email = None,
      ub_clientIds = Some [''u1'', ''u0'', ''nobody'']\<rparr>"

definition ex_profile_body :: users_body where
  "ex_profile_body =
     \<lparr>ub_firstName = Some ''Anna'', ub_lastName = None, ub_phone = Some None,
      ub_email = Some ''anna@b.c'', ub_clientIds = None\<rparr>"

section \<open>Verification\<close>

subsection \<open>Lookups and updates on tables\<close>

lemma find_map_preserve:
  "(\<And>x. P (f x) = P x) \<Longrightarrow> find P (map f xs) = map_option f (find P xs)"
  by (induction xs) auto

lemma find_Some_in: "find P xs = Some x \<Longrightarrow> x \<in> set xs \<and> P x"
  by (induction xs) (auto split: if_splits)

lemma find_distinct_key:
  "distinct (map k xs) \<Longrightarrow> x \<in> set xs \<Longrightarrow> find (\<lambda>y. k y = k x) xs = Some x"
  by (induction xs) (auto simp: rev_image_eqI)

lemma findUnique_id_update_user:
  "findUnique_id (update_user i (\<lambda>u. u\<lparr>validated := True\<rparr>) d) j =
     map_option (\<lambda>u. if uid u = i then u\<lparr>validated := True\<rparr> else u) (findUnique_id d j)"
  unfolding findUnique_id_def update_user_def
  by (simp add: find_map_preserve)

lemma findUnique_email_update_user:
  "findUnique_email (update_user i (\<lambda>u. u\<lparr>validated := True\<rparr>) d) e =
     map_option (\<lambda>u. if uid u = i then u\<lparr>validated := True\<rparr> else u) (findUnique_email d e)"
  unfolding findUnique_email_def update_user_def
  by (simp add: find_map_preserve)

lemma findUnique_id_auditLog_create [simp]:
  "findUnique_id (auditLog_create e d) = findUnique_id d"
  by (simp add: findUnique_id_def auditLog_create_def fun_eq_iff)

lemma findUnique_email_auditLog_create [simp]:
  "findUnique_email (auditLog_create e d) = findUnique_email d"
  by (simp add: findUnique_email_def auditLog_create_def fun_eq_iff)

lemma users_auditLog_create [simp]: "users (auditLog_create e d) = users d"
  by (simp add: auditLog_create_def)

lemma auditLogs_auditLog_create [simp]:
  "auditLogs (auditLog_create e d) = auditLogs d @ [e]"
  by (simp add: auditLog_create_def)

lemma users_update_user [simp]:
  "users (update_user i f d) = map (\<lambda>u. if uid u = i then f u else u) (users d)"
  by (simp add: update_user_def)

lemma auditLogs_update_user [simp]: "auditLogs (update_user i f d) = auditLogs d"
  by (simp add: update_user_def)

subsection \<open>The validation gate of the authentication service\<close>

lemma validateClient_ok:
  assumes "findUnique_id d c = Some u" "role u = CLIENT" "\<not> validated u"
  shows "validateClient c a d =
     (Inr (ClientView.truncate (u\<lparr>validated := True\<rparr>)),
      auditLog_create
        \<lparr>log_userId = a, log_action = ''CLIENT_VALIDATED'',
         log_meta = [(''validatedClientId'', JStr c),
                     (''validatedClientEmail'', JStr (email u)),
                     (''validatedClientName'', JStr (firstName u @ '' '' @ lastName u))]\<rparr>
        (update_user c (\<lambda>u. u\<lparr>validated := True\<rparr>) d))"
  using assms by (simp add: validateClient_def Let_def)

lemma validateClient_fails:
  assumes "findUnique_id d c = None \<or>
           (\<exists>u. findUnique_id d c = Some u \<and> (role u \<noteq> CLIENT \<or> validated u))"
  shows "\<exists>e. validateClient c a d = (Inl e, d)"
  using assms by (auto simp: validateClient_def)

lemma validateClient_again:
  assumes "findUnique_id d c = Some u" "role u = CLIENT" "validated u"
  shows "validateClient c a d = (Inl AlreadyValidated, d)"
  using assms by (simp add: validateClient_def)

text \<open>
  C1. A login with the right password by a CLIENT that is not validated fails with
  \<open>PendingValidation\<close>, issues no token and leaves the store as it was; once an
  administrator has validated that client (user ids being a key of the table), the same
  login succeeds and returns the access token and the refresh token of
  \<open>generateTokens\<close>; a user with another role logs in whatever its \<open>validated\<close> flag, and
  no login of such a user ever ends in \<open>PendingValidation\<close>.
\<close>

theorem login_validation_gate:
  assumes found: "findUnique_email d (toLowerCase (li_email data)) = Some u"
      and pw: "bcrypt_compare L (li_password data) (password u)"
  shows "(role u = CLIENT \<and> \<not> validated u \<longrightarrow>
            login L data d = (Inl PendingValidation, d) \<and>
            (distinct (map uid (users d)) \<longrightarrow>
               (\<exists>v d'. validateClient (uid u) admin d = (Inr v, d') \<and>
                  (\<exists>r d''. login L data d' = (Inr r, d'') \<and>
                     token r = fst (generateTokens L (uid u)) \<and>
                     refreshToken_of r = snd (generateTokens L (uid u))))))
       \<and> (role u \<noteq> CLIENT \<longrightarrow>
            (\<exists>r d'. login L data d = (Inr r, d') \<and>
               token r = fst (generateTokens L (uid u)) \<and>
               refreshToken_of r = snd (generateTokens L (uid u))))
       \<and> (\<forall>data' u'. findUnique_email d (toLowerCase (li_email data')) = Some u' \<and>
               role u' \<noteq> CLIENT \<longrightarrow>
            fst (login L data' d) \<noteq> Inl PendingValidation)"
proof (intro conjI impI allI)
  assume c: "role u = CLIENT \<and> \<not> validated u"
  show "login L data d = (Inl PendingValidation, d)"
    using found pw c by (simp add: login_def)
next
  assume c: "role u = CLIENT \<and> \<not> validated u" and dist: "distinct (map uid (users d))"
  from found have "u \<in> set (users d)"
    by (auto simp: findUnique_email_def dest: find_Some_in)
  with dist have byid: "findUnique_id d (uid u) = Some u"
    unfolding findUnique_id_def by (rule find_distinct_key)
  let ?d' = "snd (validateClient (uid u) admin d)"
  have v: "validateClient (uid u) admin d =
             (Inr (ClientView.truncate (u\<lparr>validated := True\<rparr>)), ?d')"
    using validateClient_ok [OF byid] c by simp
  have found': "findUnique_email ?d' (toLowerCase (li_email data)) = Some (u\<lparr>validated := True\<rparr>)"
    using validateClient_ok [OF byid] c found by (simp add: findUnique_email_update_user)
  have "\<exists>r d''. login L data ?d' = (Inr r, d'') \<and>
          token r = fst (generateTokens L (uid u)) \<and>
          refreshToken_of r = snd (generateTokens L (uid u))"
    using found' pw by (simp add: login_def Let_def)
  with v show "\<exists>v d'. validateClient (uid u) admin d = (Inr v, d') \<and>
       (\<exists>r d''. login L data d' = (Inr r, d'') \<and>
          token r = fst (generateTokens L (uid u)) \<and>
          refreshToken_of r = snd (generateTokens L (uid u)))"
    by blast
next
  assume "role u \<noteq> CLIENT"
  then show "\<exists>r d'. login L data d = (Inr r, d') \<and>
               token r = fst (generateTokens L (uid u)) \<and>
               refreshToken_of r = snd (generateTokens L (uid u))"
    using found pw by (simp add: login_def Let_def)
next
  fix data' :: LoginInput and u'
  assume "findUnique_email d (toLowerCase (li_email data')) = Some u' \<and> role u' \<noteq> CLIENT"
  then show "fst (login L data' d) \<noteq> Inl PendingValidation"
    by (simp add: login_def Let_def)
qed

theorem login_validation_gate_witness:
  "login ex_libs ex_login ex_db = (Inl PendingValidation, ex_db) \<and>
   (\<exists>v d'. validateClient ''u1'' ''u0'' ex_db = (Inr v, d') \<and>
      (\<exists>r d''. login ex_libs ex_login d' = (Inr r, d'') \<and>
         token r = ''s1:u1'' \<and> refreshToken_of r = ''s2:u1'')) \<and>
   (\<exists>r d'. login ex_libs \<lparr>li_email = ''ROOT@b.c'', li_password = ''admin1''\<rparr> ex_db = (Inr r, d') \<and>
      token r = ''s1:u0'' \<and> refreshToken_of r = ''s2:u0'')"
proof -
  have f1: "findUnique_email ex_db (toLowerCase (li_email ex_login)) = Some ex_client"
    by code_simp
  have p1: "bcrypt_compare ex_libs (li_password ex_login) (password ex_client)"
    by code_simp
  have f2: "findUnique_email ex_db
              (toLowerCase (li_email \<lparr>li_email = ''ROOT@b.c'', li_password = ''admin1''\<rparr>)) =
            Some ex_admin"
    by code_simp
  have p2: "bcrypt_compare ex_libs
              (li_password \<lparr>li_email = ''ROOT@b.c'', li_password = ''admin1''\<rparr>)
              (password ex_admin)"
    by code_simp
  have c: "role ex_client = CLIENT" "\<not> validated ex_client" "uid ex_client = ''u1''"
          "role ex_admin \<noteq> CLIENT" "uid ex_admin = ''u0''"
          "distinct (map uid (users ex_db))"
    by (simp_all add: ex_client_def ex_admin_def ex_db_def)
  have t: "generateTokens ex_libs ''u1'' = (''s1:u1'', ''s2:u1'')"
          "generateTokens ex_libs ''u0'' = (''s1:u0'', ''s2:u0'')"
    by (simp_all add: generateTokens_def ex_libs_def)
  show ?thesis
    using login_validation_gate [OF f1 p1, of "''u0''"] login_validation_gate [OF f2 p2, of "''u0''"]
    by (simp add: c t)
qed

text \<open>
  C3. \<open>validateClient clientId actorId\<close> fails and leaves the store unchanged when no
  user has the id, when the target is not a CLIENT and when it is already validated.
  Otherwise it succeeds: the target row has \<open>validated = True\<close> and is otherwise the
  same, no other row changes, exactly one audit entry (by the actor, about this client)
  is appended, and a second call on the same client fails with \<open>AlreadyValidated\<close>,
  changing nothing.
\<close>

theorem validateClient_spec:
  "((findUnique_id d c = None \<or>
       (\<exists>u. findUnique_id d c = Some u \<and> (role u \<noteq> CLIENT \<or> validated u))) \<longrightarrow>
      (\<exists>e. validateClient c a d = (Inl e, d)))
   \<and> (\<forall>u. findUnique_id d c = Some u \<and> role u = CLIENT \<and> \<not> validated u \<longrightarrow>
        (\<exists>v d'. validateClient c a d = (Inr v, d') \<and> validated v \<and> uid v = uid u \<and>
           findUnique_id d' c = Some (u\<lparr>validated := True\<rparr>) \<and>
           users d' = map (\<lambda>x. if uid x = c then x\<lparr>validated := True\<rparr> else x) (users d) \<and>
           (\<exists>e. auditLogs d' = auditLogs d @ [e] \<and> log_userId e = a \<and>
                log_action e = ''CLIENT_VALIDATED'' \<and>
                map_of (log_meta e) ''validatedClientId'' = Some (JStr c)) \<and>
           (\<forall>a'. validateClient c a' d' = (Inl AlreadyValidated, d'))))"
proof (intro conjI impI allI)
  assume "findUnique_id d c = None \<or>
          (\<exists>u. findUnique_id d c = Some u \<and> (role u \<noteq> CLIENT \<or> validated u))"
  then show "\<exists>e. validateClient c a d = (Inl e, d)"
    by (rule validateClient_fails)
next
  fix u
  assume h: "findUnique_id d c = Some u \<and> role u = CLIENT \<and> \<not> validated u"
  then have idc: "uid u = c"
    by (auto simp: findUnique_id_def dest: find_Some_in)
  let ?e = "\<lparr>log_userId = a, log_action = ''CLIENT_VALIDATED'',
             log_meta = [(''validatedClientId'', JStr c),
                         (''validatedClientEmail'', JStr (email u)),
                         (''validatedClientName'', JStr (firstName u @ '' '' @ lastName u))]\<rparr>"
  let ?d' = "auditLog_create ?e (update_user c (\<lambda>u. u\<lparr>validated := True\<rparr>) d)"
  have run: "validateClient c a d = (Inr (ClientView.truncate (u\<lparr>validated := True\<rparr>)), ?d')"
    using h by (simp add: validateClient_ok)
  have look: "findUnique_id ?d' c = Some (u\<lparr>validated := True\<rparr>)"
    using h idc by (simp add: findUnique_id_update_user)
  have again: "\<forall>a'. validateClient c a' ?d' = (Inl AlreadyValidated, ?d')"
    using look h by (simp add: validateClient_again)
  have view: "validated (ClientView.truncate (u\<lparr>validated := True\<rparr>))"
             "uid (ClientView.truncate (u\<lparr>validated := True\<rparr>)) = uid u"
    by (simp_all add: ClientView.truncate_def)
  have log: "\<exists>e. auditLogs ?d' = auditLogs d @ [e] \<and> log_userId e = a \<and>
                log_action e = ''CLIENT_VALIDATED'' \<and>
                map_of (log_meta e) ''validatedClientId'' = Some (JStr c)"
    by simp
  have rows: "users ?d' = map (\<lambda>x. if uid x = c then x\<lparr>validated := True\<rparr> else x) (users d)"
    by simp
  show "\<exists>v d'. validateClient c a d = (Inr v, d') \<and> validated v \<and> uid v = uid u \<and>
           findUnique_id d' c = Some (u\<lparr>validated := True\<rparr>) \<and>
           users d' = map (\<lambda>x. if uid x = c then x\<lparr>validated := True\<rparr> else x) (users d) \<and>
           (\<exists>e. auditLogs d' = auditLogs d @ [e] \<and> log_userId e = a \<and>
                log_action e = ''CLIENT_VALIDATED'' \<and>
                map_of (log_meta e) ''validatedClientId'' = Some (JStr c)) \<and>
           (\<forall>a'. validateClient c a' d' = (Inl AlreadyValidated, d'))"
    using run look again view log rows by blast
qed

theorem validateClient_spec_witness:
  "(\<exists>e. validateClient ''u0'' ''u0'' ex_db = (Inl e, ex_db)) \<and>
   (\<exists>e. validateClient ''nobody'' ''u0'' ex_db = (Inl e, ex_db)) \<and>
   (\<exists>v d'. validateClient ''u1'' ''u0'' ex_db = (Inr v, d') \<and> validated v \<and>
      findUnique_id d' ''u1'' = Some (ex_client\<lparr>validated := True\<rparr>) \<and>
      (\<exists>e. auditLogs d' = [e] \<and> log_userId e = ''u0'') \<and>
      validateClient ''u1'' ''u0'' d' = (Inl AlreadyValidated, d'))"
proof -
  have l0: "findUnique_id ex_db ''u0'' = Some ex_admin"
    and l1: "findUnique_id ex_db ''u1'' = Some ex_client"
    and l2: "findUnique_id ex_db ''nobody'' = None"
    by (simp_all add: findUnique_id_def ex_db_def ex_admin_def ex_client_def)
  have c: "role ex_admin \<noteq> CLIENT" "role ex_client = CLIENT" "\<not> validated ex_client"
          "auditLogs ex_db = []"
    by (simp_all add: ex_admin_def ex_client_def ex_db_def)
  show ?thesis
    using validateClient_spec [of ex_db "''u0''" "''u0''"]
          validateClient_spec [of ex_db "''nobody''" "''u0''"]
          validateClient_spec [of ex_db "''u1''" "''u0''"]
    by (simp add: l0 l1 l2 c) blast
qed

text \<open>
  C5. \<open>refreshToken\<close> fails with the one error \<open>InvalidRefreshToken\<close> (and changes
  nothing) when verification of the token throws, when the decoded user id resolves to no
  user, and when the user is a CLIENT whose \<open>validated\<close> flag is false; it never fails
  with any other error. On a token that verifies, of a user that is not such a client, it
  returns the user together with a new access token and a new refresh token.
\<close>

theorem refreshToken_spec:
  "(jwt_verify L rt (JWT_REFRESH_SECRET L) = None \<longrightarrow>
      refreshToken L rt d = (Inl InvalidRefreshToken, d))
   \<and> (\<forall>i. jwt_verify L rt (JWT_REFRESH_SECRET L) = Some i \<and> findUnique_id d i = None \<longrightarrow>
        refreshToken L rt d = (Inl InvalidRefreshToken, d))
   \<and> (\<forall>i u. jwt_verify L rt (JWT_REFRESH_SECRET L) = Some i \<and> findUnique_id d i = Some u \<and>
          role u = CLIENT \<and> \<not> validated u \<longrightarrow>
        refreshToken L rt d = (Inl InvalidRefreshToken, d))
   \<and> (\<forall>i u. jwt_verify L rt (JWT_REFRESH_SECRET L) = Some i \<and> findUnique_id d i = Some u \<and>
          \<not> (role u = CLIENT \<and> \<not> validated u) \<longrightarrow>
        refreshToken L rt d =
          (Inr \<lparr>ar_user = AuthUser.truncate u,
                token = jwt_sign L (uid u) (JWT_SECRET L) (env_or (JWT_EXPIRES_IN L) ''15m''),
                refreshToken_of = jwt_sign L (uid u) (JWT_REFRESH_SECRET L)
                                    (env_or (JWT_REFRESH_EXPIRES_IN L) ''7d'')\<rparr>, d))
   \<and> (\<forall>e. fst (refreshToken L rt d) = Inl e \<longrightarrow> e = InvalidRefreshToken)"
  by (auto simp: refreshToken_def refreshToken_try_def generateTokens_def Let_def
           split: option.splits sum.splits if_splits)

theorem refreshToken_spec_witness:
  "refreshToken ex_libs ''garbage'' ex_db = (Inl InvalidRefreshToken, ex_db) \<and>
   refreshToken ex_libs ''s2:u9'' ex_db = (Inl InvalidRefreshToken, ex_db) \<and>
   refreshToken ex_libs ''s2:u1'' ex_db = (Inl InvalidRefreshToken, ex_db) \<and>
   refreshToken ex_libs ''s2:u0'' ex_db =
     (Inr \<lparr>ar_user = AuthUser.truncate ex_admin, token = ''s1:u0'',
           refreshToken_of = ''s2:u0''\<rparr>, ex_db)"
proof -
  have v: "jwt_verify ex_libs ''garbage'' (JWT_REFRESH_SECRET ex_libs) = None"
          "jwt_verify ex_libs ''s2:u9'' (JWT_REFRESH_SECRET ex_libs) = Some ''u9''"
          "jwt_verify ex_libs ''s2:u1'' (JWT_REFRESH_SECRET ex_libs) = Some ''u1''"
          "jwt_verify ex_libs ''s2:u0'' (JWT_REFRESH_SECRET ex_libs) = Some ''u0''"
    by (simp_all add: ex_libs_def)
  have l: "findUnique_id ex_db ''u9'' = None"
          "findUnique_id ex_db ''u1'' = Some ex_client"
          "findUnique_id ex_db ''u0'' = Some ex_admin"
    by (simp_all add: findUnique_id_def ex_db_def ex_admin_def ex_client_def)
  have c: "role ex_client = CLIENT" "\<not> validated ex_client" "role ex_admin \<noteq> CLIENT"
          "uid ex_admin = ''u0''"
    by (simp_all add: ex_client_def ex_admin_def)
  have s: "jwt_sign ex_libs ''u0'' (JWT_SECRET ex_libs) (env_or (JWT_EXPIRES_IN ex_libs) ''15m'') =
             ''s1:u0''"
          "jwt_sign ex_libs ''u0'' (JWT_REFRESH_SECRET ex_libs)
             (env_or (JWT_REFRESH_EXPIRES_IN ex_libs) ''7d'') = ''s2:u0''"
    by (simp_all add: ex_libs_def)
  show ?thesis
    using refreshToken_spec [of ex_libs "''garbage''" ex_db]
          refreshToken_spec [of ex_libs "''s2:u9''" ex_db]
          refreshToken_spec [of ex_libs "''s2:u1''" ex_db]
          refreshToken_spec [of ex_libs "''s2:u0''" ex_db]
    by (simp add: v l c s)
qed

text \<open>
  C9. Whatever the request body of \<open>POST /auth/register\<close> holds, a role property
  included: when the request succeeds, exactly one row is added to the users table, and
  that row (as the user in the answer) has role CLIENT and \<open>validated = False\<close>; and
  whether it succeeds or not, every row of the table afterwards is a row that was there
  before or a CLIENT that is not validated, so no ADMIN or PRACTITIONER comes from
  this endpoint.
\<close>

theorem register_creates_unvalidated_client:
  "(\<forall>c r d'. POST_register L newId now body d = (Success c r, d') \<longrightarrow>
      (\<exists>u. users d' = users d @ [u] \<and> uid u = newId \<and> role u = CLIENT \<and> \<not> validated u) \<and>
      role (rr_user r) = CLIENT \<and> \<not> validated (rr_user r))
   \<and> (\<forall>u \<in> set (users (snd (POST_register L newId now body d))).
        u \<in> set (users d) \<or> (role u = CLIENT \<and> \<not> validated u))"
  by (auto simp: POST_register_def register_def Let_def ClientView.truncate_def
           split: option.splits if_splits sum.splits prod.splits)

theorem register_creates_unvalidated_client_witness:
  "(\<exists>r d'. POST_register ex_libs ''u2'' 5 ex_register_body ex_db = (Success 201 r, d') \<and>
      map_of (b_other ex_register_body) ''role'' = Some (JStr ''ADMIN'') \<and>
      role (rr_user r) = CLIENT \<and> \<not> validated (rr_user r) \<and>
      (\<exists>u. users d' = users ex_db @ [u] \<and> role u = CLIENT \<and> \<not> validated u))"
proof -
  obtain r d' where run: "POST_register ex_libs ''u2'' 5 ex_register_body ex_db = (r, d')"
    by (cases "POST_register ex_libs ''u2'' 5 ex_register_body ex_db")
  have "fst (POST_register ex_libs ''u2'' 5 ex_register_body ex_db) =
          Success 201
            \<lparr>rr_message =
               ''Registration successful! Your account is pending validation by an administrator.'',
             rr_user = \<lparr>uid = ''u2'', email = ''eve@x.io'', firstName = ''Eve'',
                        lastName = ''Fox'', role = CLIENT, validated = False\<rparr>\<rparr>"
    by code_simp
  with run obtain r' where ok: "POST_register ex_libs ''u2'' 5 ex_register_body ex_db = (Success 201 r', d')"
    by simp
  have other: "map_of (b_other ex_register_body) ''role'' = Some (JStr ''ADMIN'')"
    by (simp add: ex_register_body_def)
  show ?thesis
    using register_creates_unvalidated_client [of ex_libs "''u2''" 5 ex_register_body ex_db] ok other
    by blast
qed

subsection \<open>Deleting an animal\<close>

lemma find_None_iff_set: "find P xs = None \<longleftrightarrow> (\<forall>x \<in> set xs. \<not> P x)"
  by (induction xs) auto

text \<open>
  C4. For an animal that the caller's ownership scope shows: when an appointment or a
  treatment note refers to it, \<open>DELETE /animals/:id\<close> answers \<open>DependencyBlocked\<close> and
  the store is unchanged; when none does, it answers 200 and the animals table afterwards
  is the old one without the rows of that id; and the deletion succeeds exactly when
  there is neither an appointment nor a treatment note.
\<close>

theorem delete_animal_dependency_guard:
  assumes visible: "find_animal_scoped c i d = Some a"
  shows "(((\<exists>p \<in> set (appointments d). appt_animalId p = i) \<or>
           (\<exists>n \<in> set (treatmentNotes d). note_animalId n = i)) \<longrightarrow>
            DELETE_animal c i d = (DependencyBlocked, d) \<and> a \<in> set (animals d))
       \<and> ((\<forall>p \<in> set (appointments d). appt_animalId p \<noteq> i) \<and>
           (\<forall>n \<in> set (treatmentNotes d). note_animalId n \<noteq> i) \<longrightarrow>
            (\<exists>d'. DELETE_animal c i d = (Success 200 (), d') \<and>
                  animals d' = filter (\<lambda>x. animal_id x \<noteq> i) (animals d) \<and>
                  a \<notin> set (animals d') \<and> find_animal_scoped c i d' = None \<and>
                  users d' = users d \<and> appointments d' = appointments d \<and>
                  treatmentNotes d' = treatmentNotes d))
       \<and> ((\<exists>k d'. DELETE_animal c i d = (Success k (), d')) \<longleftrightarrow>
            length (filter (\<lambda>p. appt_animalId p = i) (appointments d)) = 0 \<and>
            length (filter (\<lambda>n. note_animalId n = i) (treatmentNotes d)) = 0)"
proof -
  from visible have a: "a \<in> set (animals d)" "animal_id a = i"
    by (auto simp: find_animal_scoped_def dest!: find_Some_in split: if_splits)
  have blocked: "DELETE_animal c i d = (DependencyBlocked, d)"
    if "(\<exists>p \<in> set (appointments d). appt_animalId p = i) \<or>
        (\<exists>n \<in> set (treatmentNotes d). note_animalId n = i)"
    using that visible
    by (auto simp: DELETE_animal_def DependencyBlocked_def Let_def find_None_iff_set)
  have deleted: "DELETE_animal c i d =
                   (Success 200 (), d\<lparr>animals := filter (\<lambda>x. animal_id x \<noteq> i) (animals d)\<rparr>)"
    if "(\<forall>p \<in> set (appointments d). appt_animalId p \<noteq> i) \<and>
        (\<forall>n \<in> set (treatmentNotes d). note_animalId n \<noteq> i)"
    using that visible
    by (auto simp: DELETE_animal_def Let_def find_None_iff_set)
  have gone: "find_animal_scoped c i
                (d\<lparr>animals := filter (\<lambda>x. animal_id x \<noteq> i) (animals d)\<rparr>) = None"
    by (auto simp: find_animal_scoped_def find_None_iff_set)
  have iff: "(\<exists>k d'. DELETE_animal c i d = (Success k (), d')) \<longleftrightarrow>
            length (filter (\<lambda>p. appt_animalId p = i) (appointments d)) = 0 \<and>
            length (filter (\<lambda>n. note_animalId n = i) (treatmentNotes d)) = 0"
  proof (cases "(\<forall>p \<in> set (appointments d). appt_animalId p \<noteq> i) \<and>
                (\<forall>n \<in> set (treatmentNotes d). note_animalId n \<noteq> i)")
    case True
    then show ?thesis using deleted by (auto simp: filter_empty_conv)
  next
    case False
    then have "DELETE_animal c i d = (DependencyBlocked, d)" using blocked by blast
    with False show ?thesis by (auto simp: DependencyBlocked_def filter_empty_conv)
  qed
  show ?thesis
    using a blocked deleted gone iff by (auto simp: a)
qed

theorem delete_animal_dependency_guard_witness:
  "DELETE_animal ex_caller_client ''a1'' ex_db = (DependencyBlocked, ex_db) \<and>
   (\<exists>d'. DELETE_animal ex_caller_client ''a2'' ex_db = (Success 200 (), d') \<and>
      map animal_id (animals d') = [''a1''])"
proof -
  have v1: "find_animal_scoped ex_caller_client ''a1'' ex_db = Some (ex_animals ! 0)"
    and v2: "find_animal_scoped ex_caller_client ''a2'' ex_db = Some (ex_animals ! 1)"
    by (simp_all add: find_animal_scoped_def ex_db_def ex_animals_def ex_caller_client_def
          isAdmin_def)
  have tabs: "appointments ex_db = [ex_appointment]" "treatmentNotes ex_db = []"
             "appt_animalId ex_appointment = ''a1''"
             "map animal_id (filter (\<lambda>x. animal_id x \<noteq> ''a2'') (animals ex_db)) = [''a1'']"
    by (simp_all add: ex_db_def ex_appointment_def ex_animals_def)
  show ?thesis
    using delete_animal_dependency_guard [OF v1] delete_animal_dependency_guard [OF v2]
    by (auto simp: tabs)
qed

subsection \<open>Snoozing a reminder\<close>

lemma digits_small: "n < 10 \<Longrightarrow> digits n = [''0123456789'' ! n]"
  by (simp add: digits.simps)

lemma digits_large: "\<not> n < 10 \<Longrightarrow> digits n = digits (n div 10) @ [''0123456789'' ! (n mod 10)]"
  by (subst digits.simps) simp

text \<open>
  C6, as stated, at two concrete inputs, both on an existing manual reminder. A snooze
  call with \<open>minutes = -5\<close> is answered with status 400 by the guard
  \<open>!minutes || minutes <= 0\<close>, and the due date of the reminder stays what it was
  instead of becoming the current time plus \<open>-5\<close> minutes. A snooze call with
  \<open>minutes = 200000000000\<close> passes the guard, but the current time plus that many
  minutes is beyond the range of a \<open>Date\<close>: \<open>toISOString\<close> throws, the outer \<open>catch\<close>
  answers 400, and the due date again stays what it was.
\<close>

theorem snooze_nonpositive_counterexample:
  "PUT_reminders_snooze ex_runtime ''manual-1-abc'' (Some (- 5)) ex_state =
     (Failure 400 ''Invalid snooze duration'', ex_state) \<and>
   map_option dueDate
     (snd (snd (PUT_reminders_snooze ex_runtime ''manual-1-abc'' (Some (- 5)) ex_state))
        ''manual-1-abc'') = Some ''T100'' \<and>
   toISOString ex_runtime (Date_now ex_runtime + (- 5) * 60 * 1000) = ''T-295000'' \<and>
   map_option dueDate
     (snd (snd (PUT_reminders_snooze ex_runtime ''manual-1-abc'' (Some (- 5)) ex_state))
        ''manual-1-abc'') \<noteq>
     Some (toISOString ex_runtime (Date_now ex_runtime + (- 5) * 60 * 1000)) \<and>
   PUT_reminders_snooze ex_runtime ''manual-1-abc'' (Some 200000000000) ex_state =
     (Failure 400 ''Failed to snooze reminder'', ex_state) \<and>
   \<not> valid_date (Date_now ex_runtime + 200000000000 * 60 * 1000) \<and>
   toISOString ex_runtime (Date_now ex_runtime + 200000000000 * 60 * 1000) =
     ''T12000000000005000'' \<and>
   map_option dueDate
     (snd (snd (PUT_reminders_snooze ex_runtime ''manual-1-abc'' (Some 200000000000) ex_state))
        ''manual-1-abc'') \<noteq>
     Some (toISOString ex_runtime (Date_now ex_runtime + 200000000000 * 60 * 1000))"
proof -
  have run: "PUT_reminders_snooze ex_runtime ''manual-1-abc'' (Some (- 5)) ex_state =
     (Failure 400 ''Invalid snooze duration'', ex_state)"
    by (simp add: PUT_reminders_snooze_def ex_state_def)
  have old: "map_option dueDate (snd ex_state ''manual-1-abc'') = Some ''T100''"
    by (simp add: ex_state_def ex_manual_reminder_def)
  have new: "toISOString ex_runtime (Date_now ex_runtime + (- 5) * 60 * 1000) = ''T-295000''"
    by (simp add: ex_runtime_def Number_toString_def digits_small digits_large)
  have far: "\<not> valid_date (Date_now ex_runtime + 200000000000 * 60 * 1000)"
    by (simp add: valid_date_def ex_runtime_def)
  have pre: "startsWith ''manual-1-abc'' ''manual-''"
    by (simp add: startsWith_def)
  have run2: "PUT_reminders_snooze ex_runtime ''manual-1-abc'' (Some 200000000000) ex_state =
     (Failure 400 ''Failed to snooze reminder'', ex_state)"
    using far pre by (simp add: PUT_reminders_snooze_def ex_state_def Let_def)
  have new2: "toISOString ex_runtime (Date_now ex_runtime + 200000000000 * 60 * 1000) =
     ''T12000000000005000''"
    by (simp add: ex_runtime_def Number_toString_def digits_small digits_large)
  show ?thesis
    unfolding run run2 new new2 snd_conv old using far by simp
qed

lemma snooze_manual:
  assumes "0 < mins" "valid_date (Date_now R + mins * 60 * 1000)"
          "startsWith i ''manual-''" "manual i = Some r"
  shows "PUT_reminders_snooze R i (Some mins) (d, manual) =
              (Success 200 (r\<lparr>dueDate := toISOString R (Date_now R + mins * 60 * 1000)\<rparr>),
               (d, manual(i \<mapsto> r\<lparr>dueDate := toISOString R (Date_now R + mins * 60 * 1000)\<rparr>)))"
  using assms by (simp add: PUT_reminders_snooze_def Let_def)

lemma snooze_stored:
  assumes "0 < mins" "valid_date (Date_now R + mins * 60 * 1000)"
          "\<not> startsWith i ''manual-''" "find (\<lambda>x. rem_id x = i) (reminders d) = Some q"
  shows "PUT_reminders_snooze R i (Some mins) (d, manual) =
           (Success 200
              \<lparr>r_id = rem_id q, r_message = rem_message q,
               r_type = ReminderType_name (rem_type q),
               dueDate = toISOString R (Date_now R + mins * 60 * 1000),
               completed = sent q, priority = ''MEDIUM'',
               r_appointmentId = Some (rem_appointmentId q),
               r_createdAt = toISOString R (rem_createdAt q)\<rparr>,
            (d\<lparr>reminders :=
                 map (\<lambda>x. if rem_id x = i
                           then x\<lparr>remindAt := Date_now R + mins * 60 * 1000\<rparr> else x)
                   (reminders d)\<rparr>, manual))"
  using assms by (simp add: PUT_reminders_snooze_def Let_def)

lemma find_reminder_updated:
  assumes "find (\<lambda>x. rem_id x = i) rs = Some q"
  shows "find (\<lambda>x. rem_id x = i) (map (\<lambda>x. if rem_id x = i then x\<lparr>remindAt := t\<rparr> else x) rs) =
           Some (q\<lparr>remindAt := t\<rparr>)"
proof -
  have "rem_id q = i" using assms by (auto dest: find_Some_in)
  then show ?thesis using assms by (simp add: find_map_preserve)
qed

lemma snooze_rejected:
  assumes "minutes_opt = None \<or> (\<exists>m. minutes_opt = Some m \<and> m \<le> 0)"
  shows "PUT_reminders_snooze R i minutes_opt st = (Failure 400 ''Invalid snooze duration'', st)"
  using assms by (cases st) (auto simp: PUT_reminders_snooze_def)

text \<open>
  C6, amended. For a snooze call with \<open>m > 0\<close> minutes such that the current time plus
  \<open>m\<close> minutes is a valid \<open>Date\<close>: on an existing manual reminder (id with the prefix
  \<open>manual-\<close>, present in the map) the stored record afterwards is the old one with
  \<open>dueDate\<close> replaced by the ISO string of now + m minutes; on an existing stored
  reminder (id without the prefix) the row afterwards is the old one with \<open>remindAt\<close>
  replaced by now + m minutes. The new due date does not depend on the old one; the
  \<open>completed\<close> / \<open>sent\<close> flag and every other field are unchanged, and so are all
  other reminders. A call in which \<open>minutes\<close> is missing, zero or negative is answered
  with status 400 (\<open>Invalid snooze duration\<close>) and changes nothing, whatever the id and
  the state.
\<close>

theorem snooze_sets_due_date:
  "(0 < mins \<and> valid_date (Date_now R + mins * 60 * 1000) \<longrightarrow>
      (startsWith i ''manual-'' \<and> manual i = Some r \<longrightarrow>
         PUT_reminders_snooze R i (Some mins) (d, manual) =
           (Success 200 (r\<lparr>dueDate := toISOString R (Date_now R + mins * 60 * 1000)\<rparr>),
            (d, manual(i \<mapsto> r\<lparr>dueDate := toISOString R (Date_now R + mins * 60 * 1000)\<rparr>))) \<and>
         completed (r\<lparr>dueDate := toISOString R (Date_now R + mins * 60 * 1000)\<rparr>) = completed r)
    \<and> (\<not> startsWith i ''manual-'' \<and> find (\<lambda>x. rem_id x = i) (reminders d) = Some q \<longrightarrow>
         (\<exists>resp d'. PUT_reminders_snooze R i (Some mins) (d, manual) =
                      (Success 200 resp, (d', manual)) \<and>
            find (\<lambda>x. rem_id x = i) (reminders d') =
              Some (q\<lparr>remindAt := Date_now R + mins * 60 * 1000\<rparr>) \<and>
            sent (q\<lparr>remindAt := Date_now R + mins * 60 * 1000\<rparr>) = sent q \<and>
            d' = d\<lparr>reminders :=
                    map (\<lambda>x. if rem_id x = i
                              then x\<lparr>remindAt := Date_now R + mins * 60 * 1000\<rparr> else x)
                      (reminders d)\<rparr> \<and>
            dueDate resp = toISOString R (Date_now R + mins * 60 * 1000) \<and>
            completed resp = sent q)))
   \<and> (minutes_opt = None \<or> (\<exists>m. minutes_opt = Some m \<and> m \<le> 0) \<longrightarrow>
        PUT_reminders_snooze R j minutes_opt st = (Failure 400 ''Invalid snooze duration'', st))"
proof -
  have manual_part:
    "PUT_reminders_snooze R i (Some mins) (d, manual) =
       (Success 200 (r\<lparr>dueDate := toISOString R (Date_now R + mins * 60 * 1000)\<rparr>),
        (d, manual(i \<mapsto> r\<lparr>dueDate := toISOString R (Date_now R + mins * 60 * 1000)\<rparr>))) \<and>
     completed (r\<lparr>dueDate := toISOString R (Date_now R + mins * 60 * 1000)\<rparr>) = completed r"
    if "0 < mins \<and> valid_date (Date_now R + mins * 60 * 1000)"
       "startsWith i ''manual-'' \<and> manual i = Some r"
    using that by (simp add: snooze_manual)
  have stored_part:
    "\<exists>resp d'. PUT_reminders_snooze R i (Some mins) (d, manual) =
                      (Success 200 resp, (d', manual)) \<and>
            find (\<lambda>x. rem_id x = i) (reminders d') =
              Some (q\<lparr>remindAt := Date_now R + mins * 60 * 1000\<rparr>) \<and>
            sent (q\<lparr>remindAt := Date_now R + mins * 60 * 1000\<rparr>) = sent q \<and>
            d' = d\<lparr>reminders :=
                    map (\<lambda>x. if rem_id x = i
                              then x\<lparr>remindAt := Date_now R + mins * 60 * 1000\<rparr> else x)
                      (reminders d)\<rparr> \<and>
            dueDate resp = toISOString R (Date_now R + mins * 60 * 1000) \<and>
            completed resp = sent q"
    if pv: "0 < mins \<and> valid_date (Date_now R + mins * 60 * 1000)"
       and h: "\<not> startsWith i ''manual-'' \<and> find (\<lambda>x. rem_id x = i) (reminders d) = Some q"
  proof -
    have run: "PUT_reminders_snooze R i (Some mins) (d, manual) =
           (Success 200
              \<lparr>r_id = rem_id q, r_message = rem_message q,
               r_type = ReminderType_name (rem_type q),
               dueDate = toISOString R (Date_now R + mins * 60 * 1000),
               completed = sent q, priority = ''MEDIUM'',
               r_appointmentId = Some (rem_appointmentId q),
               r_createdAt = toISOString R (rem_createdAt q)\<rparr>,
            (d\<lparr>reminders :=
                 map (\<lambda>x. if rem_id x = i
                           then x\<lparr>remindAt := Date_now R + mins * 60 * 1000\<rparr> else x)
                   (reminders d)\<rparr>, manual))"
      using pv h by (intro snooze_stored) simp_all
    show ?thesis
      unfolding run using h find_reminder_updated [of i "reminders d" q]
      by simp
  qed
  have rejected_part:
    "PUT_reminders_snooze R j minutes_opt st = (Failure 400 ''Invalid snooze duration'', st)"
    if "minutes_opt = None \<or> (\<exists>m. minutes_opt = Some m \<and> m \<le> 0)"
    using that by (rule snooze_rejected)
  from manual_part stored_part rejected_part show ?thesis
    by blast
qed

theorem snooze_sets_due_date_witness:
  "PUT_reminders_snooze ex_runtime ''manual-1-abc'' (Some 1) ex_state =
     (Success 200 (ex_manual_reminder\<lparr>dueDate := ''T65000''\<rparr>),
      (fst ex_state, (snd ex_state)(''manual-1-abc'' \<mapsto> ex_manual_reminder\<lparr>dueDate := ''T65000''\<rparr>))) \<and>
   (\<exists>resp d'. PUT_reminders_snooze ex_runtime ''r1'' (Some 2) ex_state =
                 (Success 200 resp, (d', snd ex_state)) \<and>
      find (\<lambda>x. rem_id x = ''r1'') (reminders d') = Some (ex_reminder\<lparr>remindAt := 125000\<rparr>) \<and>
      completed resp = sent ex_reminder) \<and>
   PUT_reminders_snooze ex_runtime ''r1'' None ex_state =
     (Failure 400 ''Invalid snooze duration'', ex_state) \<and>
   PUT_reminders_snooze ex_runtime ''manual-1-abc'' (Some 0) ex_state =
     (Failure 400 ''Invalid snooze duration'', ex_state)"
proof -
  have v1: "0 < (1::int) \<and> valid_date (Date_now ex_runtime + 1 * 60 * 1000)"
   and v2: "0 < (2::int) \<and> valid_date (Date_now ex_runtime + 2 * 60 * 1000)"
    by (simp_all add: valid_date_def ex_runtime_def)
  have s: "startsWith ''manual-1-abc'' ''manual-''" "\<not> startsWith ''r1'' ''manual-''"
    by (simp_all add: startsWith_def)
  have m: "snd ex_state ''manual-1-abc'' = Some ex_manual_reminder"
    by (simp add: ex_state_def)
  have f: "find (\<lambda>x. rem_id x = ''r1'') (reminders (fst ex_state)) = Some ex_reminder"
    by (simp add: ex_state_def ex_reminder_def)
  have t1: "toISOString ex_runtime (Date_now ex_runtime + 1 * 60 * 1000) = ''T65000''"
    by (simp add: ex_runtime_def Number_toString_def digits_small digits_large)
  have t2: "Date_now ex_runtime + 2 * 60 * 1000 = 125000"
    by (simp add: ex_runtime_def)
  have st: "(fst ex_state, snd ex_state) = ex_state" by simp
  have z: "\<exists>m. Some (0::int) = Some m \<and> m \<le> 0" by simp
  note w1 = snooze_sets_due_date [where mins = 1 and R = ex_runtime and i = "''manual-1-abc''"
         and manual = "snd ex_state" and r = ex_manual_reminder and d = "fst ex_state"
         and minutes_opt = None and j = "''r1''" and st = ex_state]
  note w2 = snooze_sets_due_date [where mins = 2 and R = ex_runtime and i = "''r1''"
         and manual = "snd ex_state" and q = ex_reminder and d = "fst ex_state"
         and minutes_opt = "Some 0" and j = "''manual-1-abc''" and st = ex_state]
  from w1 v1 s m
  have a: "PUT_reminders_snooze ex_runtime ''manual-1-abc'' (Some 1) ex_state =
     (Success 200 (ex_manual_reminder\<lparr>dueDate := ''T65000''\<rparr>),
      (fst ex_state, (snd ex_state)(''manual-1-abc'' \<mapsto> ex_manual_reminder\<lparr>dueDate := ''T65000''\<rparr>)))"
    unfolding st t1 by blast
  from w2 v2 s f
  have b: "\<exists>resp d'. PUT_reminders_snooze ex_runtime ''r1'' (Some 2) ex_state =
                 (Success 200 resp, (d', snd ex_state)) \<and>
      find (\<lambda>x. rem_id x = ''r1'') (reminders d') = Some (ex_reminder\<lparr>remindAt := 125000\<rparr>) \<and>
      completed resp = sent ex_reminder"
    unfolding st t2 by blast
  from w1 have c: "PUT_reminders_snooze ex_runtime ''r1'' None ex_state =
     (Failure 400 ''Invalid snooze duration'', ex_state)"
    by blast
  from w2 z have e: "PUT_reminders_snooze ex_runtime ''manual-1-abc'' (Some 0) ex_state =
     (Failure 400 ''Invalid snooze duration'', ex_state)"
    by blast
  from a b c e show ?thesis by blast
qed

subsection \<open>The type of a created reminder\<close>

lemma mapString_fallback:
  "t \<notin> {''APPOINTMENT_REMINDER'', ''FOLLOW_UP'', ''APPOINTMENT_CONFIRMATION'', ''BIRTHDAY''} \<Longrightarrow>
   mapStringToReminderType t = FOLLOW_UP"
  by (simp add: mapStringToReminderType_def)

text \<open>
  C7. For a create request that passes validation and whose type string \<open>t\<close> (the one
  sent, or the default \<open>MANUAL\<close>) is none of the four names of the persisted enum:
  with a truthy \<open>appointmentId\<close>, whenever the request succeeds the row added to the
  store has the type \<open>FOLLOW_UP\<close> (the answer alone still shows \<open>t\<close>), and it does
  succeed when the appointment exists and the due date parses; without one, the request
  succeeds and the record stored in the in-memory map under a \<open>manual-\<close> id has the type
  \<open>t\<close> itself.
\<close>

theorem reminder_type_coercion:
  assumes outside: "t \<notin> {''APPOINTMENT_REMINDER'', ''FOLLOW_UP'', ''APPOINTMENT_CONFIRMATION'',
                            ''BIRTHDAY''}"
      and parsed: "createReminderSchema_parse body = Some v"
      and ty: "v_type v = t"
  shows "(truthy (v_appointmentId v) \<longrightarrow>
            (\<forall>c resp d' manual'.
               POST_reminders R body (d, manual) = (Success c resp, (d', manual')) \<longrightarrow>
                 (\<exists>r. reminders d' = reminders d @ [r] \<and> rem_type r = FOLLOW_UP \<and>
                      rem_id r = r_id resp) \<and>
                 manual' = manual \<and> r_type resp = t) \<and>
            (\<forall>a p ts. v_appointmentId v = Some a \<and>
                 find (\<lambda>p. appt_id p = a) (appointments d) = Some p \<and>
                 Date_parse R (v_dueDate v) = Some ts \<longrightarrow>
               (\<exists>resp d'. POST_reminders R body (d, manual) = (Success 201 resp, (d', manual)))))
       \<and> (\<not> truthy (v_appointmentId v) \<longrightarrow>
            (\<exists>resp. POST_reminders R body (d, manual) =
                      (Success 201 resp, (d, manual(r_id resp \<mapsto> resp))) \<and>
                    r_type resp = t \<and> startsWith (r_id resp) ''manual-''))"
proof -
  have fb: "mapStringToReminderType (v_type v) = FOLLOW_UP"
    using mapString_fallback [OF outside] ty by simp
  have linked: "(\<exists>r. reminders d' = reminders d @ [r] \<and> rem_type r = FOLLOW_UP \<and>
                     rem_id r = r_id resp) \<and>
                manual' = manual \<and> r_type resp = t"
    if "truthy (v_appointmentId v)"
       "POST_reminders R body (d, manual) = (Success c resp, (d', manual'))"
    for c resp d' manual'
    using that parsed ty fb
    by (auto simp: POST_reminders_def Let_def split: option.splits if_splits)
  have created: "\<exists>resp d'. POST_reminders R body (d, manual) = (Success 201 resp, (d', manual))"
    if "v_appointmentId v = Some a \<and>
        find (\<lambda>p. appt_id p = a) (appointments d) = Some p \<and>
        Date_parse R (v_dueDate v) = Some ts"
       "truthy (v_appointmentId v)"
    for a p ts
    using that parsed by (simp add: POST_reminders_def Let_def)
  have unlinked: "\<exists>resp. POST_reminders R body (d, manual) =
                      (Success 201 resp, (d, manual(r_id resp \<mapsto> resp))) \<and>
                    r_type resp = t \<and> startsWith (r_id resp) ''manual-''"
    if "\<not> truthy (v_appointmentId v)"
    using that parsed ty by (simp add: POST_reminders_def Let_def startsWith_def)
  show ?thesis
    using linked created unlinked by blast
qed

theorem reminder_type_coercion_witness:
  "(\<exists>resp d'. POST_reminders ex_runtime ex_reminder_body ex_state =
                 (Success 201 resp, (d', snd ex_state)) \<and>
      (\<exists>r. reminders d' = reminders (fst ex_state) @ [r] \<and> rem_type r = FOLLOW_UP) \<and>
      r_type resp = ''MEDICATION'') \<and>
   (\<exists>resp. POST_reminders ex_runtime (ex_reminder_body\<lparr>rb_appointmentId := None\<rparr>) ex_state =
              (Success 201 resp, (fst ex_state, (snd ex_state)(r_id resp \<mapsto> resp))) \<and>
      r_type resp = ''MEDICATION'')"
proof -
  have o: "''MEDICATION'' \<notin> {''APPOINTMENT_REMINDER'', ''FOLLOW_UP'',
             ''APPOINTMENT_CONFIRMATION'', ''BIRTHDAY''}"
    by simp
  let ?v = "\<lparr>v_message = ''Give pills'', v_type = ''MEDICATION'', v_dueDate = ''soon'',
             v_priority = ''MEDIUM'', v_appointmentId = Some ''p1''\<rparr>"
  have p1: "createReminderSchema_parse ex_reminder_body = Some ?v"
    by (simp add: createReminderSchema_parse_def ex_reminder_body_def)
  have p2: "createReminderSchema_parse (ex_reminder_body\<lparr>rb_appointmentId := None\<rparr>) =
              Some (?v\<lparr>v_appointmentId := None\<rparr>)"
    by (simp add: createReminderSchema_parse_def ex_reminder_body_def)
  have ap: "find (\<lambda>p. appt_id p = ''p1'') (appointments (fst ex_state)) = Some ex_appointment"
    by (simp add: ex_state_def ex_db_def ex_appointment_def)
  have dp: "Date_parse ex_runtime ''soon'' = Some 9000"
    by (simp add: ex_runtime_def)
  have st: "(fst ex_state, snd ex_state) = ex_state" by simp
  from reminder_type_coercion [OF o p1, where R = ex_runtime and d = "fst ex_state"
         and manual = "snd ex_state"] ap dp
  have a: "\<exists>resp d'. POST_reminders ex_runtime ex_reminder_body ex_state =
                 (Success 201 resp, (d', snd ex_state)) \<and>
      (\<exists>r. reminders d' = reminders (fst ex_state) @ [r] \<and> rem_type r = FOLLOW_UP) \<and>
      r_type resp = ''MEDICATION''"
    unfolding st by simp blast
  from reminder_type_coercion [OF o p2, where R = ex_runtime and d = "fst ex_state"
         and manual = "snd ex_state"]
  have b: "\<exists>resp. POST_reminders ex_runtime (ex_reminder_body\<lparr>rb_appointmentId := None\<rparr>) ex_state =
              (Success 201 resp, (fst ex_state, (snd ex_state)(r_id resp \<mapsto> resp))) \<and>
      r_type resp = ''MEDICATION''"
    unfolding st by simp blast
  from a b show ?thesis by blast
qed

subsection \<open>The validated flag under user management\<close>

lemma findUnique_id_map:
  "(\<And>u. uid (f u) = uid u) \<Longrightarrow>
   findUnique_id (d\<lparr>users := map f (users d)\<rparr>) j = map_option f (findUnique_id d j)"
  by (simp add: findUnique_id_def find_map_preserve)

lemma is_validated_map:
  assumes "\<And>u. uid (f u) = uid u" "\<And>u. validated u \<Longrightarrow> validated (f u)"
      and "is_validated d j"
  shows "is_validated (d\<lparr>users := map f (users d)\<rparr>) j"
  using assms by (auto simp: is_validated_def findUnique_id_map split: option.splits)

lemma is_validated_auditLog_create [simp]:
  "is_validated (auditLog_create e d) j = is_validated d j"
  by (simp add: is_validated_def)

lemma is_validated_update_user:
  assumes "\<And>u. uid (f u) = uid u" "\<And>u. validated u \<Longrightarrow> validated (f u)"
      and "is_validated d j"
  shows "is_validated (update_user i f d) j"
  unfolding update_user_def
  using assms by (intro is_validated_map) auto

lemma profile_data_keeps [simp]:
  "uid (profile_data body u) = uid u" "validated (profile_data body u) = validated u"
  "role (profile_data body u) = role u"
  by (simp_all add: profile_data_def)

lemma validated_PUT_users_update:
  "is_validated d j \<Longrightarrow> is_validated (snd (PUT_users_update i body d)) j"
  by (auto simp: PUT_users_update_def Let_def is_validated_update_user split: option.splits)

lemma validated_PUT_users_validate:
  "is_validated d j \<Longrightarrow> is_validated (snd (PUT_users_validate c i d)) j"
  by (auto simp: PUT_users_validate_def Let_def is_validated_update_user split: option.splits)

lemma validated_validateClient:
  "is_validated d j \<Longrightarrow> is_validated (snd (validateClient i a d)) j"
  by (auto simp: validateClient_def Let_def is_validated_update_user split: option.splits)

lemma validated_PUT_users_bulk_validate:
  "is_validated d j \<Longrightarrow> is_validated (snd (PUT_users_bulk_validate c body d)) j"
  by (auto simp: PUT_users_bulk_validate_def Let_def is_validated_map split: option.splits)

lemma validated_users_PUT:
  "is_validated d j \<Longrightarrow> is_validated (snd (users_PUT c path body d)) j"
  by (auto simp: users_PUT_def validated_PUT_users_update validated_PUT_users_validate
        validated_PUT_users_bulk_validate
      split: option.splits users_handler.splits list.splits)

lemma validated_apply_user_op:
  "is_validated d j \<Longrightarrow> is_validated (apply_user_op op d) j"
  by (cases op)
     (simp_all add: validated_PUT_users_update validated_PUT_users_validate
        validated_validateClient validated_PUT_users_bulk_validate validated_users_PUT)

text \<open>
  C8. Whatever sequence of user-management operations runs (profile update, bulk
  validation, single validation through either route, or any \<open>PUT\<close> request on the users
  router): a user whose \<open>validated\<close> flag is true before the sequence is still there
  afterwards with the flag true. This holds for every sequence, so for every prefix of
  one: the flag never goes back to false.
\<close>

theorem validated_never_reset:
  "is_validated d j \<Longrightarrow>
     is_validated (run_user_ops ops d) j \<and>
     (\<exists>u. findUnique_id (run_user_ops ops d) j = Some u \<and> validated u)"
proof -
  assume "is_validated d j"
  then have "is_validated (run_user_ops ops d) j"
    unfolding run_user_ops_def
    by (induction ops arbitrary: d) (simp_all add: validated_apply_user_op)
  then show ?thesis
    by (auto simp: is_validated_def split: option.splits)
qed

theorem validated_never_reset_witness:
  "is_validated (snd (validateClient ''u1'' ''u0'' ex_db)) ''u1'' \<and>
   is_validated
     (run_user_ops
        [ProfileUpdate ''u1'' ex_profile_body,
         BulkValidate ex_caller_admin ex_bulk_body,
         SingleValidate ex_caller_admin ''u1'',
         AuthValidate ''u1'' ''u0'',
         PutUsers ex_caller_admin [''u1''] ex_profile_body]
        (snd (validateClient ''u1'' ''u0'' ex_db))) ''u1''"
proof -
  have h: "is_validated (snd (validateClient ''u1'' ''u0'' ex_db)) ''u1''"
    by (simp add: validateClient_def is_validated_def findUnique_id_def update_user_def
          auditLog_create_def Let_def ex_db_def ex_admin_def ex_client_def)
  show ?thesis
    using validated_never_reset [OF h] h by blast
qed

subsection \<open>Bulk validation\<close>

lemma match_param_validate:
  "match_path [Param, Lit ''validate''] [''bulk'', ''validate''] = Some [''bulk'']"
  by (simp add: toLowerCase_def)

lemma dispatch_never_bulk:
  "dispatch users_PUT_routes path \<noteq> Some (params, allowed, H_bulk_validate)"
proof
  assume a: "dispatch users_PUT_routes path = Some (params, allowed, H_bulk_validate)"
  show False
  proof (cases "match_path [Param, Lit ''validate''] path")
    case (Some ps)
    then show ?thesis using a by (simp add: dispatch_def users_PUT_routes_def)
  next
    case None
    note n1 = None
    show ?thesis
    proof (cases "match_path [Param] path")
      case (Some ps)
      then show ?thesis using a n1 by (simp add: dispatch_def users_PUT_routes_def)
    next
      case None
      have "match_path [Lit ''bulk'', Lit ''validate''] path = None"
      proof (cases path)
        case Nil then show ?thesis by simp
      next
        case (Cons x xs)
        note c1 = Cons
        show ?thesis
        proof (cases xs)
          case Nil then show ?thesis using c1 by simp
        next
          case (Cons y ys)
          show ?thesis
          proof (cases ys)
            case Nil
            with n1 c1 Cons show ?thesis
              by (auto simp: toLowerCase_def split: if_splits)
          next
            case (Cons z zs)
            with c1 \<open>xs = y # ys\<close> show ?thesis by simp
          qed
        qed
      qed
      with a n1 None show ?thesis by (simp add: dispatch_def users_PUT_routes_def)
    qed
  qed
qed

lemma bulk_validate_handler:
  assumes "ub_clientIds body = Some ids" "ids \<noteq> []"
  shows "\<exists>d'. PUT_users_bulk_validate c body d =
                (Success 200 (length (filter (bulk_target ids) (users d))), d') \<and>
              users d' = map (\<lambda>u. if bulk_target ids u then u\<lparr>validated := True\<rparr> else u) (users d) \<and>
              (\<forall>u \<in> set (users d). \<not> bulk_target ids u \<longrightarrow> u \<in> set (users d'))"
  using assms by (auto simp: PUT_users_bulk_validate_def Let_def)

text \<open>
  C10, at a concrete request. \<open>PUT /users/bulk/validate\<close> by an administrator, with a
  non-empty list of ids of which one is a pending client: the route \<open>/:id/validate\<close> is
  declared before \<open>/bulk/validate\<close> and matches with \<open>id = bulk\<close>, so the
  single-validation handler answers 404 (no user has the id \<open>bulk\<close>) and nothing is
  updated; the bulk handler, which on the same body and store would answer with the
  count 1, is never reached (\<open>dispatch_never_bulk\<close>). What the handler does when it is
  run is \<open>bulk_validate_handler\<close>.
\<close>

theorem bulk_validate_request_shadowed:
  "dispatch users_PUT_routes [''bulk'', ''validate''] =
     Some ([''bulk''], [ADMIN, PRACTITIONER], H_validate) \<and>
   users_PUT ex_caller_admin [''bulk'', ''validate''] ex_bulk_body ex_db =
     (Failure 404 ''User not found'', ex_db) \<and>
   fst (PUT_users_bulk_validate ex_caller_admin ex_bulk_body ex_db) = Success 200 1"
proof -
  have d: "dispatch users_PUT_routes [''bulk'', ''validate''] =
             Some ([''bulk''], [ADMIN, PRACTITIONER], H_validate)"
    by (simp add: dispatch_def users_PUT_routes_def match_param_validate)
  have r: "requireRole [ADMIN, PRACTITIONER] ex_caller_admin"
    by (simp add: requireRole_def ex_caller_admin_def)
  have v: "PUT_users_validate ex_caller_admin ''bulk'' ex_db = (Failure 404 ''User not found'', ex_db)"
    by (simp add: PUT_users_validate_def findUnique_id_def ex_db_def ex_admin_def ex_client_def)
  have u: "users_PUT ex_caller_admin [''bulk'', ''validate''] ex_bulk_body ex_db =
             (Failure 404 ''User not found'', ex_db)"
    by (simp add: users_PUT_def d r v)
  have b: "fst (PUT_users_bulk_validate ex_caller_admin ex_bulk_body ex_db) = Success 200 1"
    by (simp add: PUT_users_bulk_validate_def ex_bulk_body_def Let_def bulk_target_def
          ex_db_def ex_admin_def ex_client_def)
  show ?thesis using d u b by simp
qed

subsection \<open>The appointment status lifecycle\<close>

lemma find_appointment_update:
  assumes "\<And>p. appt_id (f p) = appt_id p"
  shows "find_appointment j (update_appointment i f d) =
           map_option (\<lambda>p. if appt_id p = i then f p else p) (find_appointment j d)"
  using assms by (simp add: find_appointment_def update_appointment_def find_map_preserve)

lemma find_appointment_id: "find_appointment i d = Some p \<Longrightarrow> appt_id p = i"
  by (auto simp: find_appointment_def dest: find_Some_in)

lemma confirm_cases:
  assumes "find_appointment i d = Some p"
  shows "confirm i d =
           (if status p = SCHEDULED
            then (Inr (p\<lparr>status := CONFIRMED\<rparr>), update_appointment i (\<lambda>p. p\<lparr>status := CONFIRMED\<rparr>) d)
            else (Inl InvalidTransition, d))"
  using assms by (simp add: confirm_def)

lemma refuse_cases:
  assumes "find_appointment i d = Some p"
  shows "refuse i reason d =
           (if status p = SCHEDULED
            then (Inr (p\<lparr>status := CANCELLED,
                         appt_notes := (case reason of None \<Rightarrow> appt_notes p | Some r \<Rightarrow> Some r)\<rparr>),
                  update_appointment i
                    (\<lambda>p. p\<lparr>status := CANCELLED,
                           appt_notes := (case reason of None \<Rightarrow> appt_notes p | Some r \<Rightarrow> Some r)\<rparr>) d)
            else (Inl InvalidTransition, d))"
  using assms by (simp add: refuse_def Let_def)

lemma cancel_cases:
  assumes "find_appointment i d = Some p" "isAdmin c \<or> appt_clientId p = ru_id c"
  shows "cancel c i d =
           (if status p = SCHEDULED \<or> status p = CONFIRMED
            then (Inr (p\<lparr>status := CANCELLED\<rparr>), update_appointment i (\<lambda>p. p\<lparr>status := CANCELLED\<rparr>) d)
            else (Inl InvalidTransition, d))"
  using assms by (simp add: cancel_def)

lemma lifecycle_step:
  assumes f: "find_appointment i d = Some p"
      and ok: "apply_lifecycle_op op i d = (Inr q, d')"
  shows "status_transition (status p) (status q) \<and> find_appointment i d' = Some q"
proof (cases op)
  case Confirm
  with f ok find_appointment_id [OF f] show ?thesis
    by (auto simp: confirm_cases find_appointment_update split: if_splits)
next
  case (Refuse reason)
  with f ok find_appointment_id [OF f] show ?thesis
    by (auto simp: refuse_cases find_appointment_update split: if_splits)
next
  case (Cancel c)
  with f ok find_appointment_id [OF f] show ?thesis
    by (auto simp: cancel_def find_appointment_update split: if_splits)
qed

lemma lifecycle_failure:
  "apply_lifecycle_op op i d = (Inl e, d') \<Longrightarrow> d' = d"
  by (cases op) (auto simp: confirm_def refuse_def cancel_def Let_def split: option.splits if_splits)

lemma lifecycle_terminal:
  assumes f: "find_appointment i d = Some p"
      and t: "status p = CANCELLED \<or> status p = COMPLETED"
  shows "\<exists>e. apply_lifecycle_op op i d = (Inl e, d)"
  using f t by (cases op) (auto simp: confirm_def refuse_def cancel_def)

lemma lifecycle_step_reach:
  assumes f: "find_appointment i d = Some p"
  shows "\<exists>q. find_appointment i (snd (apply_lifecycle_op op i d)) = Some q \<and>
             (status q = status p \<or> status_transition (status p) (status q))"
proof (cases "apply_lifecycle_op op i d")
  case (Pair r d')
  show ?thesis
  proof (cases r)
    case (Inl e)
    with Pair lifecycle_failure have "d' = d" by blast
    with Pair f show ?thesis by simp
  next
    case (Inr q)
    with Pair lifecycle_step [OF f] show ?thesis by auto
  qed
qed

lemma run_lifecycle_reach:
  assumes "find_appointment i d = Some p"
  shows "\<exists>q. find_appointment i (run_lifecycle ops i d) = Some q \<and>
             status_transition\<^sup>*\<^sup>* (status p) (status q)"
  using assms
proof (induction ops arbitrary: d p)
  case Nil
  then show ?case by (simp add: run_lifecycle_def)
next
  case (Cons op ops)
  from lifecycle_step_reach [OF Cons.prems, of op]
  obtain q where q: "find_appointment i (snd (apply_lifecycle_op op i d)) = Some q"
    and st: "status q = status p \<or> status_transition (status p) (status q)"
    by blast
  from Cons.IH [OF q] obtain q' where
    q': "find_appointment i (run_lifecycle ops i (snd (apply_lifecycle_op op i d))) = Some q'"
    and r: "status_transition\<^sup>*\<^sup>* (status q) (status q')"
    by blast
  from st r have "status_transition\<^sup>*\<^sup>* (status p) (status q')"
    by (auto intro: converse_rtranclp_into_rtranclp)
  with q' show ?case by (simp add: run_lifecycle_def)
qed


lemma terminal_reach:
  assumes "status_transition\<^sup>*\<^sup>* s s'" "s = CANCELLED \<or> s = COMPLETED"
  shows "s' = s"
  using assms by (induction rule: rtranclp_induct) auto

lemma status_transition_edges:
  "status_transition s s' \<longleftrightarrow>
     (s, s') \<in> {(SCHEDULED, CONFIRMED), (SCHEDULED, CANCELLED),
                 (CONFIRMED, CANCELLED), (CONFIRMED, COMPLETED)}"
  by (cases s) auto

text \<open>
  C2. For an appointment that resolves: \<open>confirm\<close> and \<open>refuse\<close> succeed exactly when
  its status is SCHEDULED (leading to CONFIRMED and to CANCELLED) and fail, changing
  nothing, when it is CONFIRMED, CANCELLED or COMPLETED; \<open>cancel\<close>, by a caller whose
  scope shows the appointment, succeeds exactly from SCHEDULED or CONFIRMED (leading to
  CANCELLED) and fails from CANCELLED and COMPLETED. Hence every successful operation
  is one of the edges SCHEDULED to CONFIRMED or CANCELLED, CONFIRMED to CANCELLED or
  COMPLETED; after any run of operations the status is reachable along these edges, and
  from CANCELLED or COMPLETED it never changes.
\<close>

theorem appointment_status_lifecycle:
  assumes f: "find_appointment i d = Some p"
  shows "((\<exists>q d'. confirm i d = (Inr q, d')) \<longleftrightarrow> status p = SCHEDULED)
       \<and> ((\<exists>q d'. refuse i reason d = (Inr q, d')) \<longleftrightarrow> status p = SCHEDULED)
       \<and> (status p = SCHEDULED \<longrightarrow>
            (\<exists>d'. confirm i d = (Inr (p\<lparr>status := CONFIRMED\<rparr>), d') \<and>
                  find_appointment i d' = Some (p\<lparr>status := CONFIRMED\<rparr>)) \<and>
            (\<exists>q d'. refuse i reason d = (Inr q, d') \<and> status q = CANCELLED \<and>
                  find_appointment i d' = Some q))
       \<and> (status p \<in> {CONFIRMED, CANCELLED, COMPLETED} \<longrightarrow>
            confirm i d = (Inl InvalidTransition, d) \<and>
            refuse i reason d = (Inl InvalidTransition, d))
       \<and> (isAdmin c \<or> appt_clientId p = ru_id c \<longrightarrow>
            ((\<exists>q d'. cancel c i d = (Inr q, d')) \<longleftrightarrow>
               status p = SCHEDULED \<or> status p = CONFIRMED) \<and>
            (status p = SCHEDULED \<or> status p = CONFIRMED \<longrightarrow>
               (\<exists>d'. cancel c i d = (Inr (p\<lparr>status := CANCELLED\<rparr>), d') \<and>
                     find_appointment i d' = Some (p\<lparr>status := CANCELLED\<rparr>))) \<and>
            (status p \<in> {CANCELLED, COMPLETED} \<longrightarrow>
               cancel c i d = (Inl InvalidTransition, d)))
       \<and> (\<forall>op q d'. apply_lifecycle_op op i d = (Inr q, d') \<longrightarrow>
            (status p, status q) \<in> {(SCHEDULED, CONFIRMED), (SCHEDULED, CANCELLED),
                                     (CONFIRMED, CANCELLED), (CONFIRMED, COMPLETED)} \<and>
            find_appointment i d' = Some q)
       \<and> (\<forall>ops. \<exists>q. find_appointment i (run_lifecycle ops i d) = Some q \<and>
            status_transition\<^sup>*\<^sup>* (status p) (status q) \<and>
            (status p \<in> {CANCELLED, COMPLETED} \<longrightarrow> status q = status p))"
proof -
  note idp = find_appointment_id [OF f]
  have c1: "(\<exists>q d'. confirm i d = (Inr q, d')) \<longleftrightarrow> status p = SCHEDULED"
    by (simp add: confirm_cases [OF f])
  have c2: "(\<exists>q d'. refuse i reason d = (Inr q, d')) \<longleftrightarrow> status p = SCHEDULED"
    by (simp add: refuse_cases [OF f])
  have c3: "status p = SCHEDULED \<longrightarrow>
            (\<exists>d'. confirm i d = (Inr (p\<lparr>status := CONFIRMED\<rparr>), d') \<and>
                  find_appointment i d' = Some (p\<lparr>status := CONFIRMED\<rparr>)) \<and>
            (\<exists>q d'. refuse i reason d = (Inr q, d') \<and> status q = CANCELLED \<and>
                  find_appointment i d' = Some q)"
    using f idp
    by (simp add: confirm_cases [OF f] refuse_cases [OF f] find_appointment_update)
  have c4: "status p \<in> {CONFIRMED, CANCELLED, COMPLETED} \<longrightarrow>
            confirm i d = (Inl InvalidTransition, d) \<and>
            refuse i reason d = (Inl InvalidTransition, d)"
    by (auto simp: confirm_cases [OF f] refuse_cases [OF f])
  have c5: "isAdmin c \<or> appt_clientId p = ru_id c \<longrightarrow>
            ((\<exists>q d'. cancel c i d = (Inr q, d')) \<longleftrightarrow>
               status p = SCHEDULED \<or> status p = CONFIRMED) \<and>
            (status p = SCHEDULED \<or> status p = CONFIRMED \<longrightarrow>
               (\<exists>d'. cancel c i d = (Inr (p\<lparr>status := CANCELLED\<rparr>), d') \<and>
                     find_appointment i d' = Some (p\<lparr>status := CANCELLED\<rparr>))) \<and>
            (status p \<in> {CANCELLED, COMPLETED} \<longrightarrow>
               cancel c i d = (Inl InvalidTransition, d))"
  proof
    assume v: "isAdmin c \<or> appt_clientId p = ru_id c"
    show "((\<exists>q d'. cancel c i d = (Inr q, d')) \<longleftrightarrow>
               status p = SCHEDULED \<or> status p = CONFIRMED) \<and>
            (status p = SCHEDULED \<or> status p = CONFIRMED \<longrightarrow>
               (\<exists>d'. cancel c i d = (Inr (p\<lparr>status := CANCELLED\<rparr>), d') \<and>
                     find_appointment i d' = Some (p\<lparr>status := CANCELLED\<rparr>))) \<and>
            (status p \<in> {CANCELLED, COMPLETED} \<longrightarrow>
               cancel c i d = (Inl InvalidTransition, d))"
      using f idp by (auto simp: cancel_cases [OF f v] find_appointment_update)
  qed
  have c6: "\<forall>op q d'. apply_lifecycle_op op i d = (Inr q, d') \<longrightarrow>
            (status p, status q) \<in> {(SCHEDULED, CONFIRMED), (SCHEDULED, CANCELLED),
                                     (CONFIRMED, CANCELLED), (CONFIRMED, COMPLETED)} \<and>
            find_appointment i d' = Some q"
  proof (intro allI impI)
    fix op q d'
    assume "apply_lifecycle_op op i d = (Inr q, d')"
    from lifecycle_step [OF f this]
    show "(status p, status q) \<in> {(SCHEDULED, CONFIRMED), (SCHEDULED, CANCELLED),
                                     (CONFIRMED, CANCELLED), (CONFIRMED, COMPLETED)} \<and>
            find_appointment i d' = Some q"
      unfolding status_transition_edges .
  qed
  have c7: "\<forall>ops. \<exists>q. find_appointment i (run_lifecycle ops i d) = Some q \<and>
            status_transition\<^sup>*\<^sup>* (status p) (status q) \<and>
            (status p \<in> {CANCELLED, COMPLETED} \<longrightarrow> status q = status p)"
  proof
    fix ops
    from run_lifecycle_reach [OF f, of ops] obtain q where
      q: "find_appointment i (run_lifecycle ops i d) = Some q"
      and r: "status_transition\<^sup>*\<^sup>* (status p) (status q)"
      by blast
    from terminal_reach [OF r] have "status p \<in> {CANCELLED, COMPLETED} \<longrightarrow> status q = status p"
      by simp
    with q r show "\<exists>q. find_appointment i (run_lifecycle ops i d) = Some q \<and>
            status_transition\<^sup>*\<^sup>* (status p) (status q) \<and>
            (status p \<in> {CANCELLED, COMPLETED} \<longrightarrow> status q = status p)"
      by blast
  qed
  from c1 c2 c3 c4 c5 c6 c7 show ?thesis by (intro conjI)
qed

theorem appointment_status_lifecycle_witness:
  "\<exists>d1 d2. confirm ''p1'' ex_db = (Inr (ex_appointment\<lparr>status := CONFIRMED\<rparr>), d1) \<and>
      cancel ex_caller_client ''p1'' d1 =
        (Inr (ex_appointment\<lparr>status := CONFIRMED, status := CANCELLED\<rparr>), d2) \<and>
      confirm ''p1'' d2 = (Inl InvalidTransition, d2) \<and>
      refuse ''p1'' None d2 = (Inl InvalidTransition, d2) \<and>
      cancel ex_caller_client ''p1'' d2 = (Inl InvalidTransition, d2)"
proof -
  have f0: "find_appointment ''p1'' ex_db = Some ex_appointment"
    by (simp add: find_appointment_def ex_db_def ex_appointment_def)
  have s0: "status ex_appointment = SCHEDULED"
           "appt_clientId ex_appointment = ru_id ex_caller_client"
    by (simp_all add: ex_appointment_def ex_caller_client_def)
  from appointment_status_lifecycle [OF f0, of None ex_caller_client] s0
  obtain d1 where
    r1: "confirm ''p1'' ex_db = (Inr (ex_appointment\<lparr>status := CONFIRMED\<rparr>), d1)"
    and f1: "find_appointment ''p1'' d1 = Some (ex_appointment\<lparr>status := CONFIRMED\<rparr>)"
    by auto
  from appointment_status_lifecycle [OF f1, of None ex_caller_client] s0
  obtain d2 where
    r2: "cancel ex_caller_client ''p1'' d1 =
           (Inr (ex_appointment\<lparr>status := CONFIRMED, status := CANCELLED\<rparr>), d2)"
    and f2: "find_appointment ''p1'' d2 =
               Some (ex_appointment\<lparr>status := CONFIRMED, status := CANCELLED\<rparr>)"
    by auto
  from appointment_status_lifecycle [OF f2, of None ex_caller_client] s0
  have r3: "confirm ''p1'' d2 = (Inl InvalidTransition, d2)"
           "refuse ''p1'' None d2 = (Inl InvalidTransition, d2)"
           "cancel ex_caller_client ''p1'' d2 = (Inl InvalidTransition, d2)"
    by auto
  from r1 r2 r3 show ?thesis by blast
qed

end
